theory Spec2Isabelle
  imports Complex_Main "HOL-Library.Sublist"
begin

section \<open>Python values\<close>

text \<open>
  The steepness of \<^verbatim>\<open>SoftPlus\<close> is annotated \<^verbatim>\<open>Union[int, float]\<close>. A Python
  \<^verbatim>\<open>int\<close> is an unbounded integer and a \<^verbatim>\<open>float\<close> is read as a real number; the floats
  \<^verbatim>\<open>nan\<close>, \<^verbatim>\<open>inf\<close> and \<^verbatim>\<open>-inf\<close> are added where the constructor is followed on them.

  The elements of a numpy array are modelled at three levels. As real numbers with
  exact arithmetic, for the value at one input and for the objects the methods touch.
  As float64 with its range, \<^verbatim>\<open>inf\<close> and \<^verbatim>\<open>nan\<close>, where a result inside the range is not
  rounded. As float64 with the delivery of a result left open, which covers rounding
  and underflow.
\<close>

datatype pynum = PyInt int | PyFloat real

fun num_val :: "pynum \<Rightarrow> real" where
  "num_val (PyInt i) = of_int i"
| "num_val (PyFloat r) = r"

text \<open>
  The exceptions of the two modules. \<open>Unmodelled\<close> is not a Python exception: it marks
  what this development leaves out, such as the places where numpy would deliver
  \<^verbatim>\<open>inf\<close> or \<^verbatim>\<open>nan\<close> in exact arithmetic (logarithm of a number that is not positive,
  division by zero).
\<close>

datatype error =
    ValueError string
  | IndexError string
  | AttributeError string
  | TypeError string
  | Unmodelled string

subsection \<open>Printing numbers and \<^verbatim>\<open>str.format\<close>\<close>

definition digit_char :: "nat \<Rightarrow> char" where
  "digit_char d = ''0123456789'' ! d"

fun str_nat :: "nat \<Rightarrow> string" where
  "str_nat n = (if n < 10 then [digit_char n] else str_nat (n div 10) @ [digit_char (n mod 10)])"

declare str_nat.simps [simp del]

definition str_int :: "int \<Rightarrow> string" where
  "str_int i = (if i < 0 then CHR ''-'' # str_nat (nat (- i)) else str_nat (nat i))"

text \<open>
  \<^verbatim>\<open>str\<close> of a float is Python's shortest round-trip representation, a builtin that
  is no code of this repository: it is the parameter \<open>float_repr\<close>.
\<close>

fun py_str :: "(real \<Rightarrow> string) \<Rightarrow> pynum \<Rightarrow> string" where
  "py_str float_repr (PyInt i) = str_int i"
| "py_str float_repr (PyFloat r) = float_repr r"

text \<open>
  \<^verbatim>\<open>template.format(*args)\<close> for templates whose only fields are \<^verbatim>\<open>{}\<close>: each field takes
  the next argument, and an inserted argument is not scanned again. A field with no
  argument left raises \<^verbatim>\<open>IndexError\<close> in Python; the result is \<open>None\<close> then.
\<close>

fun py_format :: "string \<Rightarrow> string list \<Rightarrow> string option" where
  "py_format (c # d # rest) args =
     (if c = CHR ''{'' \<and> d = CHR ''}'' then
        (case args of
           [] \<Rightarrow> None
         | a # as \<Rightarrow> map_option (\<lambda>s. a @ s) (py_format rest as))
      else map_option (\<lambda>s. c # s) (py_format (d # rest) args))"
| "py_format s args = Some s"

section \<open>numpy arrays\<close>

text \<open>
  An \<^verbatim>\<open>ndarray\<close> is its shape and its elements in row-major order. A universal function
  maps over the elements and allocates its result: none of those used here is given
  \<^verbatim>\<open>out=\<close>, so none writes to an operand. Two operand arrays of different shapes would
  be broadcast by numpy; that is \<open>Unmodelled\<close>.
\<close>

record 'a ndarray =
  shape :: "nat list"
  data :: "'a list"


definition np_map :: "('a \<Rightarrow> 'b) \<Rightarrow> 'a ndarray \<Rightarrow> 'b ndarray" where
  "np_map f a = \<lparr>shape = shape a, data = map f (data a)\<rparr>"

definition np_map2 :: "('a \<Rightarrow> 'b \<Rightarrow> 'c) \<Rightarrow> 'a ndarray \<Rightarrow> 'b ndarray \<Rightarrow> error + 'c ndarray" where
  "np_map2 f a b =
     (if shape a = shape b \<and> length (data a) = length (data b) then
        Inr \<lparr>shape = shape a, data = map2 f (data a) (data b)\<rparr>
      else Inl (Unmodelled ''broadcasting''))"

subsection \<open>Exact arithmetic\<close>

definition np_exp :: "real ndarray \<Rightarrow> real ndarray" where
  "np_exp a = np_map exp a"

text \<open>\<^verbatim>\<open>c * a\<close> and \<^verbatim>\<open>c + a\<close> for a Python scalar \<open>c\<close>: the scalar is broadcast.\<close>

definition np_mul_scalar :: "real \<Rightarrow> real ndarray \<Rightarrow> real ndarray" where
  "np_mul_scalar c a = np_map (\<lambda>v. c * v) a"

definition np_add_scalar :: "real \<Rightarrow> real ndarray \<Rightarrow> real ndarray" where
  "np_add_scalar c a = np_map (\<lambda>v. c + v) a"

definition np_log :: "real ndarray \<Rightarrow> error + real ndarray" where
  "np_log a =
     (if list_all (\<lambda>v. 0 < v) (data a) then Inr (np_map ln a)
      else Inl (Unmodelled ''log of a number that is not positive''))"

definition np_divide :: "real ndarray \<Rightarrow> real ndarray \<Rightarrow> error + real ndarray" where
  "np_divide a b =
     (if list_ex (\<lambda>v. v = 0) (data b) then Inl (Unmodelled ''division by zero'')
      else np_map2 (\<lambda>u v. u / v) a b)"

subsection \<open>The range of float64\<close>

text \<open>
  For the behaviour on very large inputs, an element is a float64 with its special
  values. A finite result is delivered unless its magnitude reaches \<open>2\<^sup>1\<^sup>0\<^sup>2\<^sup>4 - 2\<^sup>9\<^sup>7\<^sup>0\<close>, from where
  IEEE 754 rounding to nearest gives an infinity. Finite results are not rounded and
  zero has no sign: only the range and the arithmetic of \<^verbatim>\<open>inf\<close> and \<^verbatim>\<open>nan\<close> are modelled.
\<close>

datatype float64 = Finite real | PosInf | NegInf | NaN

definition float64_overflow :: real where
  "float64_overflow = 2 ^ 1024 - 2 ^ 970"

definition to_float64 :: "real \<Rightarrow> float64" where
  "to_float64 r =
     (if float64_overflow \<le> r then PosInf
      else if r \<le> - float64_overflow then NegInf
      else Finite r)"

text \<open>
  An infinity (positive or negative) times the finite \<open>r\<close>: the infinity of the product of
  the signs, and \<^verbatim>\<open>nan\<close> when \<open>r\<close> is zero.
\<close>

definition signed_inf :: "bool \<Rightarrow> real \<Rightarrow> float64" where
  "signed_inf positive r =
     (if r = 0 then NaN else if (0 < r) = positive then PosInf else NegInf)"

fun f64_mul :: "float64 \<Rightarrow> float64 \<Rightarrow> float64" where
  "f64_mul (Finite a) (Finite b) = to_float64 (a * b)"
| "f64_mul (Finite a) PosInf = signed_inf True a"
| "f64_mul (Finite a) NegInf = signed_inf False a"
| "f64_mul PosInf (Finite b) = signed_inf True b"
| "f64_mul NegInf (Finite b) = signed_inf False b"
| "f64_mul PosInf PosInf = PosInf"
| "f64_mul PosInf NegInf = NegInf"
| "f64_mul NegInf PosInf = NegInf"
| "f64_mul NegInf NegInf = PosInf"
| "f64_mul NaN _ = NaN"
| "f64_mul _ NaN = NaN"

fun f64_add :: "float64 \<Rightarrow> float64 \<Rightarrow> float64" where
  "f64_add (Finite a) (Finite b) = to_float64 (a + b)"
| "f64_add (Finite a) PosInf = PosInf"
| "f64_add (Finite a) NegInf = NegInf"
| "f64_add PosInf (Finite b) = PosInf"
| "f64_add NegInf (Finite b) = NegInf"
| "f64_add PosInf PosInf = PosInf"
| "f64_add NegInf NegInf = NegInf"
| "f64_add PosInf NegInf = NaN"
| "f64_add NegInf PosInf = NaN"
| "f64_add NaN _ = NaN"
| "f64_add _ NaN = NaN"

text \<open>A finite number over zero is an infinity, zero over zero is \<^verbatim>\<open>nan\<close>.\<close>

fun f64_div :: "float64 \<Rightarrow> float64 \<Rightarrow> float64" where
  "f64_div (Finite a) (Finite b) = (if b = 0 then signed_inf True a else to_float64 (a / b))"
| "f64_div (Finite a) PosInf = Finite 0"
| "f64_div (Finite a) NegInf = Finite 0"
| "f64_div PosInf (Finite b) = (if 0 \<le> b then PosInf else NegInf)"
| "f64_div NegInf (Finite b) = (if 0 \<le> b then NegInf else PosInf)"
| "f64_div PosInf PosInf = NaN"
| "f64_div PosInf NegInf = NaN"
| "f64_div NegInf PosInf = NaN"
| "f64_div NegInf NegInf = NaN"
| "f64_div NaN _ = NaN"
| "f64_div _ NaN = NaN"

fun f64_exp :: "float64 \<Rightarrow> float64" where
  "f64_exp (Finite a) = to_float64 (exp a)"
| "f64_exp PosInf = PosInf"
| "f64_exp NegInf = Finite 0"
| "f64_exp NaN = NaN"


subsection \<open>Order, underflow and delivery of float64\<close>

text \<open>
  The comparisons \<^verbatim>\<open><=\<close> and \<^verbatim>\<open><\<close> of IEEE 754: \<^verbatim>\<open>nan\<close> is neither below nor above
  anything, itself included.
\<close>

fun f64_le :: "float64 \<Rightarrow> float64 \<Rightarrow> bool" where
  "f64_le (Finite a) (Finite b) = (a \<le> b)"
| "f64_le (Finite a) PosInf = True"
| "f64_le (Finite a) NegInf = False"
| "f64_le PosInf (Finite b) = False"
| "f64_le PosInf PosInf = True"
| "f64_le PosInf NegInf = False"
| "f64_le NegInf (Finite b) = True"
| "f64_le NegInf PosInf = True"
| "f64_le NegInf NegInf = True"
| "f64_le NaN _ = False"
| "f64_le _ NaN = False"

fun f64_lt :: "float64 \<Rightarrow> float64 \<Rightarrow> bool" where
  "f64_lt (Finite a) (Finite b) = (a < b)"
| "f64_lt (Finite a) PosInf = True"
| "f64_lt (Finite a) NegInf = False"
| "f64_lt PosInf (Finite b) = False"
| "f64_lt PosInf PosInf = False"
| "f64_lt PosInf NegInf = False"
| "f64_lt NegInf (Finite b) = True"
| "f64_lt NegInf PosInf = True"
| "f64_lt NegInf NegInf = False"
| "f64_lt NaN _ = False"
| "f64_lt _ NaN = False"

text \<open>
  The least positive float64 is \<open>1 / 2 ^ 1074\<close>. Rounding to nearest delivers zero for a
  result whose magnitude is at most half of that: the result underflows.
  \<open>to_float64_flush\<close> is \<open>to_float64\<close> with that underflow; between underflow and overflow
  it still does not round.
\<close>

definition float64_underflow :: real where
  "float64_underflow = 1 / 2 ^ 1075"

definition to_float64_flush :: "real \<Rightarrow> float64" where
  "to_float64_flush r = (if \<bar>r\<bar> \<le> float64_underflow then Finite 0 else to_float64 r)"

text \<open>
  The five operations once more, with the delivery \<open>d\<close> of an exact result as a float64
  left open; the special values are treated as above. With \<open>to_float64\<close> for \<open>d\<close> these
  are the operations above, but for the logarithm, whose result is delivered by \<open>d\<close> too.
\<close>

fun fl_mul :: "(real \<Rightarrow> float64) \<Rightarrow> float64 \<Rightarrow> float64 \<Rightarrow> float64" where
  "fl_mul d (Finite a) (Finite b) = d (a * b)"
| "fl_mul d (Finite a) PosInf = signed_inf True a"
| "fl_mul d (Finite a) NegInf = signed_inf False a"
| "fl_mul d PosInf (Finite b) = signed_inf True b"
| "fl_mul d NegInf (Finite b) = signed_inf False b"
| "fl_mul d PosInf PosInf = PosInf"
| "fl_mul d PosInf NegInf = NegInf"
| "fl_mul d NegInf PosInf = NegInf"
| "fl_mul d NegInf NegInf = PosInf"
| "fl_mul d NaN _ = NaN"
| "fl_mul d _ NaN = NaN"

fun fl_add :: "(real \<Rightarrow> float64) \<Rightarrow> float64 \<Rightarrow> float64 \<Rightarrow> float64" where
  "fl_add d (Finite a) (Finite b) = d (a + b)"
| "fl_add d (Finite a) PosInf = PosInf"
| "fl_add d (Finite a) NegInf = NegInf"
| "fl_add d PosInf (Finite b) = PosInf"
| "fl_add d NegInf (Finite b) = NegInf"
| "fl_add d PosInf PosInf = PosInf"
| "fl_add d NegInf NegInf = NegInf"
| "fl_add d PosInf NegInf = NaN"
| "fl_add d NegInf PosInf = NaN"
| "fl_add d NaN _ = NaN"
| "fl_add d _ NaN = NaN"

fun fl_div :: "(real \<Rightarrow> float64) \<Rightarrow> float64 \<Rightarrow> float64 \<Rightarrow> float64" where
  "fl_div d (Finite a) (Finite b) = (if b = 0 then signed_inf True a else d (a / b))"
| "fl_div d (Finite a) PosInf = Finite 0"
| "fl_div d (Finite a) NegInf = Finite 0"
| "fl_div d PosInf (Finite b) = (if 0 \<le> b then PosInf else NegInf)"
| "fl_div d NegInf (Finite b) = (if 0 \<le> b then NegInf else PosInf)"
| "fl_div d PosInf PosInf = NaN"
| "fl_div d PosInf NegInf = NaN"
| "fl_div d NegInf PosInf = NaN"
| "fl_div d NegInf NegInf = NaN"
| "fl_div d NaN _ = NaN"
| "fl_div d _ NaN = NaN"

fun fl_exp :: "(real \<Rightarrow> float64) \<Rightarrow> float64 \<Rightarrow> float64" where
  "fl_exp d (Finite a) = d (exp a)"
| "fl_exp d PosInf = PosInf"
| "fl_exp d NegInf = Finite 0"
| "fl_exp d NaN = NaN"

fun fl_log :: "(real \<Rightarrow> float64) \<Rightarrow> float64 \<Rightarrow> float64" where
  "fl_log d (Finite a) = (if a < 0 then NaN else if a = 0 then NegInf else d (ln a))"
| "fl_log d PosInf = PosInf"
| "fl_log d NegInf = NaN"
| "fl_log d NaN = NaN"

text \<open>
  What every rounding of IEEE 754 has, and all that is used of \<open>d\<close> below: a greater
  exact result is never delivered as a smaller float64, and \<open>0\<close> and \<open>1\<close> are delivered
  as they are.
\<close>

definition delivery :: "(real \<Rightarrow> float64) \<Rightarrow> bool" where
  "delivery d \<longleftrightarrow> (\<forall>r s. r \<le> s \<longrightarrow> f64_le (d r) (d s)) \<and> d 0 = Finite 0 \<and> d 1 = Finite 1"

section \<open>The Soft+ activation\<close>

text \<open>
  \<^verbatim>\<open>__slots__ = "beta"\<close>: an instance has the one slot \<open>beta\<close>, empty until \<^verbatim>\<open>__init__\<close>
  assigns it. \<open>type_name\<close> is \<^verbatim>\<open>type(self).__name__\<close>.
\<close>

record SoftPlus =
  type_name :: string
  beta :: "pynum option"

text \<open>
  \<^verbatim>\<open>__init__(self, beta)\<close> returns what it raised or \<open>()\<close>, together with the instance as
  it is at that moment.
\<close>

definition SoftPlus_init ::
  "(real \<Rightarrow> string) \<Rightarrow> SoftPlus \<Rightarrow> pynum \<Rightarrow> (error + unit) \<times> SoftPlus" where
  "SoftPlus_init float_repr self b =
     (if num_val b \<le> 0 then
        (case py_format ''The activation function {} expects beta > 0, but got beta = {}''
                [type_name self, py_str float_repr b] of
           None \<Rightarrow> (Inl (IndexError ''Replacement index out of range''), self)
         | Some msg \<Rightarrow> (Inl (ValueError msg), self))
      else (Inr (), self\<lparr>beta := Some b\<rparr>))"

text \<open>
  The call \<^verbatim>\<open>SoftPlus(beta)\<close>: a fresh instance with its slot empty, then \<^verbatim>\<open>__init__\<close>; an
  exception of \<^verbatim>\<open>__init__\<close> propagates and no instance is returned.
\<close>

definition fresh_SoftPlus :: SoftPlus where
  "fresh_SoftPlus = \<lparr>type_name = ''SoftPlus'', beta = None\<rparr>"

definition SoftPlus_new :: "(real \<Rightarrow> string) \<Rightarrow> pynum \<Rightarrow> error + SoftPlus" where
  "SoftPlus_new float_repr b =
     (case SoftPlus_init float_repr fresh_SoftPlus b of
        (Inl e, _) \<Rightarrow> Inl e
      | (Inr _, self) \<Rightarrow> Inr self)"

text \<open>\<^verbatim>\<open>SoftPlus()\<close>: the parameter's default is the int \<open>1\<close>.\<close>

definition SoftPlus_new_default :: "(real \<Rightarrow> string) \<Rightarrow> error + SoftPlus" where
  "SoftPlus_new_default float_repr = SoftPlus_new float_repr (PyInt 1)"

text \<open>Reading \<^verbatim>\<open>self.beta\<close>: an empty slot raises \<^verbatim>\<open>AttributeError\<close>.\<close>

definition get_beta :: "SoftPlus \<Rightarrow> error + real" where
  "get_beta self =
     (case beta self of None \<Rightarrow> Inl (AttributeError ''beta'') | Some b \<Rightarrow> Inr (num_val b))"

text \<open>\<^verbatim>\<open>__call__\<close>: \<^verbatim>\<open>return np.log(1 + np.exp(self.beta * x))\<close>.\<close>

definition SoftPlus_call :: "SoftPlus \<Rightarrow> real ndarray \<Rightarrow> error + real ndarray" where
  "SoftPlus_call self x =
     (case get_beta self of
        Inl e \<Rightarrow> Inl e
      | Inr b \<Rightarrow> np_log (np_add_scalar 1 (np_exp (np_mul_scalar b x))))"

text \<open>
  \<^verbatim>\<open>gradient\<close>: \<^verbatim>\<open>exp = np.exp(self.beta * x)\<close>, then
  \<^verbatim>\<open>return (self.beta * exp) / (1 + exp)\<close>.
\<close>

definition SoftPlus_gradient :: "SoftPlus \<Rightarrow> real ndarray \<Rightarrow> error + real ndarray" where
  "SoftPlus_gradient self x =
     (case get_beta self of
        Inl e \<Rightarrow> Inl e
      | Inr b \<Rightarrow>
          (let exp' = np_exp (np_mul_scalar b x)
           in np_divide (np_mul_scalar b exp') (np_add_scalar 1 exp')))"

subsection \<open>The two methods on float64 elements\<close>




subsection \<open>The two methods for a delivery of results\<close>

text \<open>
  The same two bodies with the delivery \<open>d\<close> of results left open, the conversion of the
  steepness included.
\<close>

definition get_beta_fl :: "(real \<Rightarrow> float64) \<Rightarrow> SoftPlus \<Rightarrow> error + float64" where
  "get_beta_fl d self =
     (case get_beta self of
        Inl e \<Rightarrow> Inl e
      | Inr c \<Rightarrow>
          (case d c of
             Finite r \<Rightarrow> Inr (Finite r)
           | _ \<Rightarrow> Inl (Unmodelled ''steepness outside float64'')))"

definition SoftPlus_call_fl ::
  "(real \<Rightarrow> float64) \<Rightarrow> SoftPlus \<Rightarrow> float64 ndarray \<Rightarrow> error + float64 ndarray" where
  "SoftPlus_call_fl d self x =
     (case get_beta_fl d self of
        Inl e \<Rightarrow> Inl e
      | Inr c \<Rightarrow>
          Inr (np_map (fl_log d)
                 (np_map (fl_add d (Finite 1)) (np_map (fl_exp d) (np_map (fl_mul d c) x)))))"

definition SoftPlus_gradient_fl ::
  "(real \<Rightarrow> float64) \<Rightarrow> SoftPlus \<Rightarrow> float64 ndarray \<Rightarrow> error + float64 ndarray" where
  "SoftPlus_gradient_fl d self x =
     (case get_beta_fl d self of
        Inl e \<Rightarrow> Inl e
      | Inr c \<Rightarrow>
          (let exp' = np_map (fl_exp d) (np_map (fl_mul d c) x)
           in np_map2 (fl_div d) (np_map (fl_mul d c) exp') (np_map (fl_add d (Finite 1)) exp')))"

subsection \<open>The constructor on every float\<close>

text \<open>
  A Python float is also \<^verbatim>\<open>nan\<close>, \<^verbatim>\<open>inf\<close> or \<^verbatim>\<open>-inf\<close>, which no \<open>pynum\<close> is. \<open>pyarg\<close> adds
  them (\<open>FloatInf True\<close> is \<^verbatim>\<open>inf\<close>), with the comparisons \<^verbatim>\<open>beta <= 0\<close> and \<^verbatim>\<open>beta > 0\<close>,
  both false of \<^verbatim>\<open>nan\<close>, and \<^verbatim>\<open>str\<close>.
\<close>

datatype pyarg = Number pynum | FloatNaN | FloatInf bool

fun arg_le_zero :: "pyarg \<Rightarrow> bool" where
  "arg_le_zero (Number b) = (num_val b \<le> 0)"
| "arg_le_zero FloatNaN = False"
| "arg_le_zero (FloatInf positive) = (\<not> positive)"

fun arg_gt_zero :: "pyarg \<Rightarrow> bool" where
  "arg_gt_zero (Number b) = (0 < num_val b)"
| "arg_gt_zero FloatNaN = False"
| "arg_gt_zero (FloatInf positive) = positive"

fun arg_str :: "(real \<Rightarrow> string) \<Rightarrow> pyarg \<Rightarrow> string" where
  "arg_str float_repr (Number b) = py_str float_repr b"
| "arg_str float_repr FloatNaN = ''nan''"
| "arg_str float_repr (FloatInf positive) = (if positive then ''inf'' else ''-inf'')"

text \<open>The instance, \<^verbatim>\<open>__init__\<close> and the call \<^verbatim>\<open>SoftPlus(beta)\<close> as above, for any such argument.\<close>

record SoftPlus_any =
  type_name_any :: string
  beta_any :: "pyarg option"

definition SoftPlus_init_any ::
  "(real \<Rightarrow> string) \<Rightarrow> SoftPlus_any \<Rightarrow> pyarg \<Rightarrow> (error + unit) \<times> SoftPlus_any" where
  "SoftPlus_init_any float_repr self b =
     (if arg_le_zero b then
        (case py_format ''The activation function {} expects beta > 0, but got beta = {}''
                [type_name_any self, arg_str float_repr b] of
           None \<Rightarrow> (Inl (IndexError ''Replacement index out of range''), self)
         | Some msg \<Rightarrow> (Inl (ValueError msg), self))
      else (Inr (), self\<lparr>beta_any := Some b\<rparr>))"

definition fresh_SoftPlus_any :: SoftPlus_any where
  "fresh_SoftPlus_any = \<lparr>type_name_any = ''SoftPlus'', beta_any = None\<rparr>"

definition SoftPlus_new_any :: "(real \<Rightarrow> string) \<Rightarrow> pyarg \<Rightarrow> error + SoftPlus_any" where
  "SoftPlus_new_any float_repr b =
     (case SoftPlus_init_any float_repr fresh_SoftPlus_any b of
        (Inl e, _) \<Rightarrow> Inl e
      | (Inr _, self) \<Rightarrow> Inr self)"

section \<open>The methods on a store\<close>

text \<open>
  The same two methods with the objects they touch made explicit. The store holds the
  instances and the arrays, an object's address is its index, and allocation appends.
  Every numpy operation of the two method bodies allocates its result
  (none is given \<^verbatim>\<open>out=\<close>), and no statement of the bodies assigns to an attribute or an
  element.
\<close>

datatype cell = Instance SoftPlus | Array "real ndarray"

type_synonym heap = "cell list"

type_synonym 'a prog = "heap \<Rightarrow> (error + 'a) \<times> heap"

definition alloc :: "cell \<Rightarrow> nat prog" where
  "alloc c h = (Inr (length h), h @ [c])"

definition bind_prog :: "'a prog \<Rightarrow> ('a \<Rightarrow> 'b prog) \<Rightarrow> 'b prog" where
  "bind_prog m f h = (case m h of (Inl e, h') \<Rightarrow> (Inl e, h') | (Inr v, h') \<Rightarrow> f v h')"

text \<open>
  An address outside the store designates no object; Python has no such reference. An
  operand that is not an array makes the arithmetic raise \<^verbatim>\<open>TypeError\<close>.
\<close>

definition load_instance :: "nat \<Rightarrow> heap \<Rightarrow> error + SoftPlus" where
  "load_instance r h =
     (if r < length h then
        (case h ! r of
           Instance obj \<Rightarrow> Inr obj
         | Array _ \<Rightarrow> Inl (AttributeError ''beta''))
      else Inl (Unmodelled ''no object at this address''))"

definition load_array :: "nat \<Rightarrow> heap \<Rightarrow> error + real ndarray" where
  "load_array r h =
     (if r < length h then
        (case h ! r of
           Array a \<Rightarrow> Inr a
         | Instance _ \<Rightarrow> Inl (TypeError ''unsupported operand''))
      else Inl (Unmodelled ''no object at this address''))"

definition read_beta :: "nat \<Rightarrow> real prog" where
  "read_beta self h =
     (case load_instance self h of Inl e \<Rightarrow> (Inl e, h) | Inr obj \<Rightarrow> (get_beta obj, h))"

definition h_unary :: "(real ndarray \<Rightarrow> error + real ndarray) \<Rightarrow> nat \<Rightarrow> nat prog" where
  "h_unary f r h =
     (case load_array r h of
        Inl e \<Rightarrow> (Inl e, h)
      | Inr a \<Rightarrow> (case f a of Inl e \<Rightarrow> (Inl e, h) | Inr y \<Rightarrow> alloc (Array y) h))"

definition h_binary ::
  "(real ndarray \<Rightarrow> real ndarray \<Rightarrow> error + real ndarray) \<Rightarrow> nat \<Rightarrow> nat \<Rightarrow> nat prog" where
  "h_binary f r s h =
     (case load_array r h of
        Inl e \<Rightarrow> (Inl e, h)
      | Inr a \<Rightarrow>
          (case load_array s h of
             Inl e \<Rightarrow> (Inl e, h)
           | Inr b \<Rightarrow> (case f a b of Inl e \<Rightarrow> (Inl e, h) | Inr y \<Rightarrow> alloc (Array y) h)))"

definition h_exp :: "nat \<Rightarrow> nat prog" where
  "h_exp = h_unary (\<lambda>a. Inr (np_exp a))"

definition h_log :: "nat \<Rightarrow> nat prog" where
  "h_log = h_unary np_log"

definition h_mul_scalar :: "real \<Rightarrow> nat \<Rightarrow> nat prog" where
  "h_mul_scalar c = h_unary (\<lambda>a. Inr (np_mul_scalar c a))"

definition h_add_scalar :: "real \<Rightarrow> nat \<Rightarrow> nat prog" where
  "h_add_scalar c = h_unary (\<lambda>a. Inr (np_add_scalar c a))"

definition h_divide :: "nat \<Rightarrow> nat \<Rightarrow> nat prog" where
  "h_divide = h_binary np_divide"

text \<open>\<^verbatim>\<open>return np.log(1 + np.exp(self.beta * x))\<close>, one temporary per operation.\<close>

definition SoftPlus_call_heap :: "nat \<Rightarrow> nat \<Rightarrow> nat prog" where
  "SoftPlus_call_heap self x =
     bind_prog (read_beta self) (\<lambda>b.
     bind_prog (h_mul_scalar b x) (\<lambda>t1.
     bind_prog (h_exp t1) (\<lambda>t2.
     bind_prog (h_add_scalar 1 t2) (\<lambda>t3.
     h_log t3))))"

text \<open>
  \<^verbatim>\<open>exp = np.exp(self.beta * x)\<close> and \<^verbatim>\<open>return (self.beta * exp) / (1 + exp)\<close>; the slot
  is read twice, as in the source.
\<close>

definition SoftPlus_gradient_heap :: "nat \<Rightarrow> nat \<Rightarrow> nat prog" where
  "SoftPlus_gradient_heap self x =
     bind_prog (read_beta self) (\<lambda>b.
     bind_prog (h_mul_scalar b x) (\<lambda>t1.
     bind_prog (h_exp t1) (\<lambda>exp'.
     bind_prog (read_beta self) (\<lambda>b'.
     bind_prog (h_mul_scalar b' exp') (\<lambda>num.
     bind_prog (h_add_scalar 1 exp') (\<lambda>den.
     h_divide num den))))))"

text \<open>
  Any number of calls on one instance: each is \<^verbatim>\<open>self(x)\<close> or \<^verbatim>\<open>self.gradient(x)\<close> for
  some array \<open>x\<close> of the store. A call that raises leaves the store as it is at the raise,
  and the caller goes on.
\<close>

datatype method_call = Value nat | Gradient nat

fun run_call :: "nat \<Rightarrow> method_call \<Rightarrow> nat prog" where
  "run_call self (Value x) = SoftPlus_call_heap self x"
| "run_call self (Gradient x) = SoftPlus_gradient_heap self x"

fun run_calls :: "nat \<Rightarrow> method_call list \<Rightarrow> heap \<Rightarrow> heap" where
  "run_calls self [] h = h"
| "run_calls self (c # cs) h = run_calls self cs (snd (run_call self c h))"

section \<open>The BFGS solver adapter\<close>

text \<open>
  A keyword value is a string or any other Python object. \<^verbatim>\<open>**kwargs\<close> is a dictionary
  from names to values.
\<close>

datatype 'a pyval = PyString string | PyObject 'a

type_synonym 'a kwargs = "string \<rightharpoonup> 'a pyval"

text \<open>
  \<^verbatim>\<open>super(BroydenFletcherGoldfarbShanno, self).__init__(objective, method="BFGS", **kwargs)\<close>.
  A call that gives one keyword twice, once written out and once through \<^verbatim>\<open>**kwargs\<close>,
  raises \<^verbatim>\<open>TypeError\<close> before the callee runs. \<^verbatim>\<open>ScipyBaseSolver.__init__\<close> is no part of
  these sources: it is the parameter \<open>base_init\<close>, which receives the instance, the
  positional argument and the keyword arguments.
\<close>

definition BroydenFletcherGoldfarbShanno_init ::
  "('s \<Rightarrow> 'o \<Rightarrow> 'a kwargs \<Rightarrow> error + 's) \<Rightarrow> 's \<Rightarrow> 'o \<Rightarrow> 'a kwargs \<Rightarrow> error + 's" where
  "BroydenFletcherGoldfarbShanno_init base_init self objective kwargs =
     (case kwargs ''method'' of
        Some _ \<Rightarrow> Inl (TypeError ''got multiple values for keyword argument method'')
      | None \<Rightarrow> base_init self objective (kwargs(''method'' \<mapsto> PyString ''BFGS'')))"

section \<open>Construction\<close>

lemma SoftPlus_new_Inr:
  "SoftPlus_new float_repr b = Inr self \<longleftrightarrow>
     0 < num_val b \<and> self = \<lparr>type_name = ''SoftPlus'', beta = Some b\<rparr>"
  by (auto simp: SoftPlus_new_def SoftPlus_init_def fresh_SoftPlus_def split: option.splits)

lemma get_beta_constructed:
  "SoftPlus_new float_repr b = Inr self \<Longrightarrow> get_beta self = Inr (num_val b)"
  by (simp add: SoftPlus_new_Inr get_beta_def)

lemma SoftPlus_new_default_Inr:
  "SoftPlus_new_default float_repr = Inr \<lparr>type_name = ''SoftPlus'', beta = Some (PyInt 1)\<rparr>"
  by (simp add: SoftPlus_new_default_def SoftPlus_new_def SoftPlus_init_def fresh_SoftPlus_def)

lemma py_format_message:
  "py_format ''The activation function {} expects beta > 0, but got beta = {}'' [a, s] =
     Some (''The activation function '' @ a @ '' expects beta > 0, but got beta = '' @ s)"
  by simp

lemma SoftPlus_init_invalid:
  assumes "num_val b \<le> 0"
  shows "SoftPlus_init float_repr self b =
           (Inl (ValueError (''The activation function '' @ type_name self @
                   '' expects beta > 0, but got beta = '' @ py_str float_repr b)), self)"
  using assms unfolding SoftPlus_init_def py_format_message by simp

lemma SoftPlus_init_valid:
  assumes "0 < num_val b"
  shows "SoftPlus_init float_repr self b = (Inr (), self\<lparr>beta := Some b\<rparr>)"
  using assms by (simp add: SoftPlus_init_def)

lemma SoftPlus_new_invalid:
  assumes "num_val b \<le> 0"
  shows "SoftPlus_new float_repr b =
           Inl (ValueError (''The activation function SoftPlus expects beta > 0, but got beta = '' @
                  py_str float_repr b))"
  using assms by (simp add: SoftPlus_new_def SoftPlus_init_invalid fresh_SoftPlus_def)

lemma str_int_minus_one: "str_int (- 1) = ''-1''"
  by (simp add: str_int_def str_nat.simps digit_char_def)

lemma str_int_zero: "str_int 0 = ''0''"
  by (simp add: str_int_def str_nat.simps digit_char_def)

text \<open>
  C4. Constructing a \<^verbatim>\<open>SoftPlus\<close> with steepness \<open>\<beta> \<le> 0\<close> raises, from the constructor call
  itself, the \<^verbatim>\<open>ValueError\<close> that validates the parameter; its message holds the type's
  name and the printed value of \<open>\<beta>\<close>. Constructing with \<open>\<beta> > 0\<close> succeeds and stores
  \<open>\<beta>\<close>.
\<close>

theorem SoftPlus_new_validates:
  "(num_val b \<le> 0 \<longrightarrow>
      (\<exists>msg. SoftPlus_new float_repr b = Inl (ValueError msg) \<and>
             msg = ''The activation function SoftPlus expects beta > 0, but got beta = '' @
                     py_str float_repr b \<and>
             sublist ''SoftPlus'' msg \<and> sublist (py_str float_repr b) msg)) \<and>
   (0 < num_val b \<longrightarrow>
      (\<exists>self. SoftPlus_new float_repr b = Inr self \<and> beta self = Some b))"
proof (intro conjI impI)
  assume inv: "num_val b \<le> 0"
  let ?s = "py_str float_repr b"
  let ?msg = "''The activation function SoftPlus expects beta > 0, but got beta = '' @ ?s"
  have "?msg = ''The activation function '' @ ''SoftPlus'' @ ('' expects beta > 0, but got beta = '' @ ?s)"
    by simp
  then have 1: "sublist ''SoftPlus'' ?msg"
    unfolding sublist_def by blast
  have "?msg = ''The activation function SoftPlus expects beta > 0, but got beta = '' @ ?s @ []"
    by simp
  then have 2: "sublist ?s ?msg"
    unfolding sublist_def by blast
  show "\<exists>msg. SoftPlus_new float_repr b = Inl (ValueError msg) \<and>
             msg = ?msg \<and> sublist ''SoftPlus'' msg \<and> sublist ?s msg"
    using SoftPlus_new_invalid [OF inv] 1 2 by blast
next
  assume "0 < num_val b"
  then show "\<exists>self. SoftPlus_new float_repr b = Inr self \<and> beta self = Some b"
    by (simp add: SoftPlus_new_Inr)
qed

theorem SoftPlus_new_validates_witness:
  "num_val (PyInt (- 1)) \<le> 0 \<and>
   SoftPlus_new (\<lambda>r. []) (PyInt (- 1)) =
     Inl (ValueError ''The activation function SoftPlus expects beta > 0, but got beta = -1'') \<and>
   sublist ''SoftPlus'' ''The activation function SoftPlus expects beta > 0, but got beta = -1'' \<and>
   sublist ''-1'' ''The activation function SoftPlus expects beta > 0, but got beta = -1'' \<and>
   num_val (PyInt 0) \<le> 0 \<and>
   SoftPlus_new (\<lambda>r. []) (PyInt 0) =
     Inl (ValueError ''The activation function SoftPlus expects beta > 0, but got beta = 0'') \<and>
   0 < num_val (PyFloat (1 / 2)) \<and>
   (\<exists>self. SoftPlus_new (\<lambda>r. []) (PyFloat (1 / 2)) = Inr self \<and>
           beta self = Some (PyFloat (1 / 2)))"
  using SoftPlus_new_validates [of "PyInt (- 1)" "\<lambda>r. []"]
    SoftPlus_new_validates [of "PyInt 0" "\<lambda>r. []"]
    SoftPlus_new_validates [of "PyFloat (1 / 2)" "\<lambda>r. []"]
  by (auto simp: str_int_minus_one str_int_zero)

subsection \<open>Construction from every float\<close>

lemma SoftPlus_new_any_Inr:
  "SoftPlus_new_any float_repr b = Inr self \<longleftrightarrow>
     \<not> arg_le_zero b \<and> self = \<lparr>type_name_any = ''SoftPlus'', beta_any = Some b\<rparr>"
  by (auto simp: SoftPlus_new_any_def SoftPlus_init_any_def fresh_SoftPlus_any_def
      split: option.splits)

lemma SoftPlus_init_any_invalid:
  assumes "arg_le_zero b"
  shows "SoftPlus_init_any float_repr self b =
           (Inl (ValueError (''The activation function '' @ type_name_any self @
                   '' expects beta > 0, but got beta = '' @ arg_str float_repr b)), self)"
  using assms unfolding SoftPlus_init_any_def py_format_message by simp

lemma SoftPlus_new_any_invalid:
  assumes "arg_le_zero b"
  shows "SoftPlus_new_any float_repr b =
           Inl (ValueError (''The activation function SoftPlus expects beta > 0, but got beta = '' @
                  arg_str float_repr b))"
  using assms by (simp add: SoftPlus_new_any_def SoftPlus_init_any_invalid fresh_SoftPlus_any_def)

text \<open>On an int or a float that is a number, the constructor is the one above.\<close>

lemma SoftPlus_new_any_Number:
  "SoftPlus_new_any float_repr (Number b) =
     Inr \<lparr>type_name_any = ''SoftPlus'', beta_any = Some (Number b)\<rparr> \<longleftrightarrow>
   SoftPlus_new float_repr b = Inr \<lparr>type_name = ''SoftPlus'', beta = Some b\<rparr>"
  by (auto simp: SoftPlus_new_any_Inr SoftPlus_new_Inr)

lemma SoftPlus_new_any_Number_raises:
  "SoftPlus_new_any float_repr (Number b) = Inl e \<longleftrightarrow> SoftPlus_new float_repr b = Inl e"
proof (cases "num_val b \<le> 0")
  case True
  then show ?thesis by (simp add: SoftPlus_new_any_invalid SoftPlus_new_invalid)
next
  case False
  then have "SoftPlus_new_any float_repr (Number b) =
               Inr \<lparr>type_name_any = ''SoftPlus'', beta_any = Some (Number b)\<rparr>"
    and "SoftPlus_new float_repr b = Inr \<lparr>type_name = ''SoftPlus'', beta = Some b\<rparr>"
    by (simp_all add: SoftPlus_new_any_Inr SoftPlus_new_Inr)
  then show ?thesis by simp
qed

text \<open>
  C10, as the code has it. When \<^verbatim>\<open>beta <= 0\<close> holds, \<^verbatim>\<open>__init__\<close> raises with the instance
  exactly as it was passed in: the slot \<open>beta\<close> of a fresh instance is still empty, and
  the constructor returns no instance. Every instance the constructor returns stores
  the steepness it was given, and \<^verbatim>\<open>beta <= 0\<close> is false of that steepness.
\<close>

theorem SoftPlus_init_any_atomic:
  "(arg_le_zero b \<longrightarrow>
      (\<exists>e. SoftPlus_init_any float_repr self b = (Inl e, self)) \<and>
      beta_any (snd (SoftPlus_init_any float_repr fresh_SoftPlus_any b)) = None \<and>
      (\<exists>e. SoftPlus_new_any float_repr b = Inl e)) \<and>
   (SoftPlus_new_any float_repr b = Inr obj \<longrightarrow> beta_any obj = Some b \<and> \<not> arg_le_zero b)"
  by (auto simp: SoftPlus_init_any_invalid SoftPlus_new_any_invalid SoftPlus_new_any_Inr
      fresh_SoftPlus_any_def)

theorem SoftPlus_init_any_atomic_witness:
  "arg_le_zero (Number (PyInt (- 3))) \<and>
   (\<exists>e. SoftPlus_init_any (\<lambda>r. [])
          \<lparr>type_name_any = ''SoftPlus'', beta_any = Some (Number (PyInt 5))\<rparr>
          (Number (PyInt (- 3))) =
          (Inl e, \<lparr>type_name_any = ''SoftPlus'', beta_any = Some (Number (PyInt 5))\<rparr>)) \<and>
   beta_any (snd (SoftPlus_init_any (\<lambda>r. []) fresh_SoftPlus_any (Number (PyInt (- 3))))) = None \<and>
   (\<exists>e. SoftPlus_new_any (\<lambda>r. []) (Number (PyInt (- 3))) = Inl e) \<and>
   arg_le_zero (FloatInf False) \<and>
   (\<exists>e. SoftPlus_new_any (\<lambda>r. []) (FloatInf False) = Inl e) \<and>
   SoftPlus_new_any (\<lambda>r. []) (Number (PyInt 4)) =
     Inr \<lparr>type_name_any = ''SoftPlus'', beta_any = Some (Number (PyInt 4))\<rparr> \<and>
   beta_any \<lparr>type_name_any = ''SoftPlus'', beta_any = Some (Number (PyInt 4))\<rparr> =
     Some (Number (PyInt 4)) \<and>
   \<not> arg_le_zero (Number (PyInt 4))"
proof -
  have h: "SoftPlus_new_any (\<lambda>r. []) (Number (PyInt 4)) =
             Inr \<lparr>type_name_any = ''SoftPlus'', beta_any = Some (Number (PyInt 4))\<rparr>"
    by (simp add: SoftPlus_new_any_Inr)
  show ?thesis
    using h
      SoftPlus_init_any_atomic [of "Number (PyInt (- 3))" "\<lambda>r. []"
        "\<lparr>type_name_any = ''SoftPlus'', beta_any = Some (Number (PyInt 5))\<rparr>"]
      SoftPlus_init_any_atomic [of "FloatInf False" "\<lambda>r. []"]
      SoftPlus_init_any_atomic [of "Number (PyInt 4)" "\<lambda>r. []" _
        "\<lparr>type_name_any = ''SoftPlus'', beta_any = Some (Number (PyInt 4))\<rparr>"]
    by simp
qed

text \<open>
  C10 as stated says that no instance with an invalid steepness ever exists. The check
  is \<^verbatim>\<open>beta <= 0\<close>, which is false of \<^verbatim>\<open>nan\<close>: the constructor called on the float \<^verbatim>\<open>nan\<close>
  returns an instance, and its steepness is not greater than \<open>0\<close>.
\<close>

theorem SoftPlus_new_any_nan:
  "SoftPlus_new_any (\<lambda>r. []) FloatNaN =
     Inr \<lparr>type_name_any = ''SoftPlus'', beta_any = Some FloatNaN\<rparr> \<and>
   \<not> arg_gt_zero FloatNaN"
  by (simp add: SoftPlus_new_any_Inr)

section \<open>The two methods as elementwise maps\<close>

lemma SoftPlus_call_value:
  assumes "get_beta self = Inr c"
  shows "SoftPlus_call self x =
           Inr \<lparr>shape = shape x, data = map (\<lambda>v. ln (1 + exp (c * v))) (data x)\<rparr>"
proof -
  have "list_all (\<lambda>v. 0 < v) (map (\<lambda>v. 1 + exp (c * v)) (data x))"
    by (simp add: list_all_iff add_pos_pos)
  then show ?thesis
    using assms
    by (simp add: SoftPlus_call_def np_log_def np_add_scalar_def np_exp_def np_mul_scalar_def
        np_map_def comp_def)
qed

lemma map2_same:
  "map2 f (map g xs) (map h xs) = map (\<lambda>v. f (g v) (h v)) xs"
  by (induction xs) simp_all

lemma SoftPlus_gradient_value:
  assumes "get_beta self = Inr c"
  shows "SoftPlus_gradient self x =
           Inr \<lparr>shape = shape x, data = map (\<lambda>v. c * exp (c * v) / (1 + exp (c * v))) (data x)\<rparr>"
proof -
  have nz: "\<not> list_ex (\<lambda>v. v = 0) (map (\<lambda>v. 1 + exp (c * v)) (data x))"
  proof -
    have "1 + exp (c * v) \<noteq> 0" for v
      using exp_gt_zero [of "c * v"] by linarith
    then show ?thesis by (auto simp: list_ex_iff)
  qed
  show ?thesis
    using assms nz
    by (simp add: SoftPlus_gradient_def np_divide_def np_add_scalar_def np_exp_def
        np_mul_scalar_def np_map_def np_map2_def Let_def comp_def map2_same)
qed

subsection \<open>The real functions behind them\<close>



section \<open>Steepness two at zero\<close>

lemma exp_taylor8:
  fixes x :: real
  shows "(\<Sum>m<8. x ^ m / fact m) =
     1 + x + x^2 / 2 + x^3 / 6 + x^4 / 24 + x^5 / 120 + x^6 / 720 + x^7 / 5040"
  by (simp add: eval_nat_numeral lessThan_Suc)

lemma exp_upper_6930: "exp (6930 / 10000 :: real) < 2"
proof -
  obtain t :: real where t: "\<bar>t\<bar> \<le> \<bar>6930 / 10000\<bar>"
    and e: "exp (6930 / 10000 :: real) = (\<Sum>m<8. (6930 / 10000) ^ m / fact m) + exp t / fact 8 * (6930 / 10000) ^ 8"
    using Maclaurin_exp_le [of "6930 / 10000" 8] by blast
  have "t \<le> 1" using t by simp
  then have "exp t \<le> exp 1" by simp
  also have "\<dots> \<le> 3" by (rule exp_le)
  finally have "exp t \<le> 3" .
  then have "exp t / fact 8 * (6930 / 10000) ^ 8 \<le> 3 / fact 8 * (6930 / 10000 :: real) ^ 8"
    by (intro mult_right_mono divide_right_mono) simp_all
  then have "exp (6930 / 10000 :: real) \<le> (\<Sum>m<8. (6930 / 10000) ^ m / fact m) + 3 / fact 8 * (6930 / 10000) ^ 8"
    using e by linarith
  also have "\<dots> < 2"
    unfolding exp_taylor8 by (simp add: fact_numeral power_divide)
  finally show ?thesis .
qed

lemma exp_lower_6932: "2 < exp (6932 / 10000 :: real)"
proof -
  obtain t :: real where
    e: "exp (6932 / 10000 :: real) = (\<Sum>m<8. (6932 / 10000) ^ m / fact m) + exp t / fact 8 * (6932 / 10000) ^ 8"
    using Maclaurin_exp_le [of "6932 / 10000" 8] by blast
  have "0 \<le> exp t / fact 8 * (6932 / 10000 :: real) ^ 8" by simp
  then have "(\<Sum>m<8. (6932 / 10000) ^ m / fact m) \<le> exp (6932 / 10000 :: real)"
    using e by linarith
  moreover have "2 < (\<Sum>m<8. (6932 / 10000 :: real) ^ m / fact m)"
    unfolding exp_taylor8 by (simp add: power_divide)
  ultimately show ?thesis by linarith
qed

lemma ln2_approx: "\<bar>ln 2 - 6931 / 10000\<bar> < (1 / 10000 :: real)"
proof -
  have "exp (6930 / 10000 :: real) < exp (ln 2)" using exp_upper_6930 by simp
  then have a: "6930 / 10000 < ln (2 :: real)" by (simp only: exp_less_cancel_iff)
  have "exp (ln 2) < exp (6932 / 10000 :: real)" using exp_lower_6932 by simp
  then have b: "ln (2 :: real) < 6932 / 10000" by (simp only: exp_less_cancel_iff)
  from a b show ?thesis by linarith
qed

text \<open>
  C8. For the \<^verbatim>\<open>SoftPlus\<close> constructed with \<open>\<beta> = 2\<close>, \<^verbatim>\<open>__call__\<close> of the array \<open>[0]\<close> is
  \<open>[ln 2]\<close>, which is within \<open>0.0001\<close> of \<open>0.6931\<close>, and \<^verbatim>\<open>gradient\<close> of \<open>[0]\<close> is \<open>[1]\<close>.
\<close>

theorem SoftPlus_beta_two_at_zero:
  assumes "num_val b = 2"
  shows "\<exists>self. SoftPlus_new float_repr b = Inr self \<and>
           SoftPlus_call self \<lparr>shape = [1], data = [0]\<rparr> = Inr \<lparr>shape = [1], data = [ln 2]\<rparr> \<and>
           \<bar>ln 2 - 6931 / 10000\<bar> < (1 / 10000 :: real) \<and>
           SoftPlus_gradient self \<lparr>shape = [1], data = [0]\<rparr> = Inr \<lparr>shape = [1], data = [1]\<rparr>"
proof -
  let ?self = "\<lparr>type_name = ''SoftPlus'', beta = Some b\<rparr>"
  have new: "SoftPlus_new float_repr b = Inr ?self"
    using assms by (simp add: SoftPlus_new_Inr)
  then have gb: "get_beta ?self = Inr 2"
    using get_beta_constructed [OF new] assms by simp
  show ?thesis
    using new ln2_approx
    by (simp add: SoftPlus_call_value [OF gb] SoftPlus_gradient_value [OF gb])
qed

theorem SoftPlus_beta_two_at_zero_witness:
  "num_val (PyInt 2) = 2 \<and>
   (\<exists>self. SoftPlus_new (\<lambda>r. []) (PyInt 2) = Inr self \<and>
           SoftPlus_call self \<lparr>shape = [1], data = [0]\<rparr> = Inr \<lparr>shape = [1], data = [ln 2]\<rparr> \<and>
           \<bar>ln 2 - 6931 / 10000\<bar> < (1 / 10000 :: real) \<and>
           SoftPlus_gradient self \<lparr>shape = [1], data = [0]\<rparr> = Inr \<lparr>shape = [1], data = [1]\<rparr>)"
proof
  show h: "num_val (PyInt 2) = 2" by simp
  show "\<exists>self. SoftPlus_new (\<lambda>r. []) (PyInt 2) = Inr self \<and>
           SoftPlus_call self \<lparr>shape = [1], data = [0]\<rparr> = Inr \<lparr>shape = [1], data = [ln 2]\<rparr> \<and>
           \<bar>ln 2 - 6931 / 10000\<bar> < (1 / 10000 :: real) \<and>
           SoftPlus_gradient self \<lparr>shape = [1], data = [0]\<rparr> = Inr \<lparr>shape = [1], data = [1]\<rparr>"
    by (rule SoftPlus_beta_two_at_zero [OF h])
qed

section \<open>Very large inputs in float64\<close>

lemma float64_overflow_gt: "28 < float64_overflow"
  by (simp add: float64_overflow_def)

lemma float64_overflow_le_pow: "float64_overflow \<le> 5 ^ 500"
  by (simp add: float64_overflow_def)

lemma exp_1000_overflows: "float64_overflow \<le> exp (1000 :: real)"
proof -
  have "(5 :: real) \<le> exp 2"
    using exp_lower_Taylor_quadratic [of "2 :: real"] by simp
  then have "(5 :: real) ^ 500 \<le> exp 2 ^ 500"
    by (intro power_mono) simp_all
  also have "exp (2 :: real) ^ 500 = exp (of_nat 500 * 2)"
    by (rule exp_of_nat_mult [symmetric])
  also have "\<dots> = exp 1000" by simp
  finally show ?thesis using float64_overflow_le_pow by linarith
qed
















section \<open>Value and gradient in the range of float64\<close>


lemma exp_709_lower: "2 ^ 1023 < exp (1419 / 2 :: real)"
proof -
  have "(2 :: real) ^ 1023 < exp (6932 / 10000) ^ 1023"
    using exp_lower_6932 by (intro power_strict_mono) simp_all
  also have "exp (6932 / 10000 :: real) ^ 1023 = exp (of_nat 1023 * (6932 / 10000))"
    by (rule exp_of_nat_mult [symmetric])
  also have "\<dots> \<le> exp (1419 / 2)" by simp
  finally show ?thesis .
qed

lemma exp_709_upper: "11 * exp (1419 / 2 :: real) < 10 * 2 ^ 1024"
proof -
  have a: "exp (6930 / 10000 :: real) ^ 1024 < 2 ^ 1024"
    using exp_upper_6930 by (intro power_strict_mono) simp_all
  have b: "exp (6930 / 10000 :: real) ^ 1024 = exp (of_nat 1024 * (6930 / 10000))"
    by (rule exp_of_nat_mult [symmetric])
  have c: "(11 / 10 :: real) \<le> exp (1 / 10)"
    using exp_ge_add_one_self [of "1 / 10 :: real"] by simp
  have "exp (1419 / 2 :: real) * exp (1 / 10) = exp (1419 / 2 + 1 / 10)"
    by (rule exp_add [symmetric])
  also have "\<dots> \<le> exp (of_nat 1024 * (6930 / 10000))" by simp
  finally have d: "exp (1419 / 2 :: real) * exp (1 / 10) < 2 ^ 1024" using a b by linarith
  have "exp (1419 / 2 :: real) * (11 / 10) \<le> exp (1419 / 2) * exp (1 / 10)"
    using c by (intro mult_left_mono) simp_all
  then show ?thesis using d by linarith
qed

lemma exp_709_in_range: "1 + exp (1419 / 2 :: real) < float64_overflow"
proof -
  define P Q :: real where "P = 2 ^ 1024" and "Q = 2 ^ 970"
  have k: "11 + 10 * P < 11 * (P - Q)" by (simp add: P_def Q_def)
  have u: "11 * exp (1419 / 2 :: real) < 10 * P" using exp_709_upper by (simp add: P_def)
  have "1 + exp (1419 / 2 :: real) < P - Q" using k u by argo
  then show ?thesis by (simp add: float64_overflow_def P_def Q_def)
qed

lemma two_exp_709_overflows: "float64_overflow \<le> 2 * exp (1419 / 2 :: real)"
proof -
  have "float64_overflow \<le> 2 * 2 ^ 1023" by (simp add: float64_overflow_def)
  then show ?thesis using exp_709_lower by linarith
qed








section \<open>Sign and growth of the float64 results\<close>

subsection \<open>What a delivery keeps\<close>

lemma f64_le_Finite_0: "f64_le (Finite 0) f \<longleftrightarrow> f = PosInf \<or> (\<exists>a. f = Finite a \<and> 0 \<le> a)"
  by (cases f) auto

lemma f64_le_Finite_1: "f64_le (Finite 1) f \<longleftrightarrow> f = PosInf \<or> (\<exists>a. f = Finite a \<and> 1 \<le> a)"
  by (cases f) auto

lemma f64_le_PosInf: "f64_le f PosInf \<longleftrightarrow> f \<noteq> NaN"
  by (cases f) auto

lemma f64_le_NegInf: "f64_le NegInf f \<longleftrightarrow> f \<noteq> NaN"
  by (cases f) auto

lemma f64_le_not_NaN: "f64_le f g \<Longrightarrow> f \<noteq> NaN \<and> g \<noteq> NaN"
  by (cases f; cases g) auto

lemma delivery_mono: "delivery d \<Longrightarrow> r \<le> s \<Longrightarrow> f64_le (d r) (d s)"
  by (simp add: delivery_def)

lemma delivery_not_NaN: "delivery d \<Longrightarrow> d r \<noteq> NaN"
  using delivery_mono [of d r r] f64_le_not_NaN by blast

lemma delivery_nonneg: "delivery d \<Longrightarrow> 0 \<le> r \<Longrightarrow> f64_le (Finite 0) (d r)"
  using delivery_mono [of d 0 r] by (simp add: delivery_def)

lemma delivery_ge_one: "delivery d \<Longrightarrow> 1 \<le> r \<Longrightarrow> f64_le (Finite 1) (d r)"
  using delivery_mono [of d 1 r] by (simp add: delivery_def)

lemma fl_exp_nonneg:
  assumes "delivery d" "p \<noteq> NaN"
  shows "f64_le (Finite 0) (fl_exp d p)"
  using assms delivery_nonneg [OF assms(1), of "exp a" for a] by (cases p) simp_all

lemma fl_exp_mono:
  assumes "delivery d" "f64_le p q"
  shows "f64_le (fl_exp d p) (fl_exp d q)"
proof (cases p)
  case (Finite a)
  show ?thesis
  proof (cases q)
    case (Finite b)
    then show ?thesis using assms \<open>p = Finite a\<close> by (simp add: delivery_mono)
  next
    case PosInf
    then show ?thesis using \<open>p = Finite a\<close> delivery_not_NaN [OF assms(1)] by (simp add: f64_le_PosInf)
  qed (use assms \<open>p = Finite a\<close> in simp_all)
next
  case PosInf
  then show ?thesis using assms by (cases q) simp_all
next
  case NegInf
  have "q \<noteq> NaN" using assms(2) f64_le_not_NaN by blast
  then show ?thesis using NegInf fl_exp_nonneg [OF assms(1), of q] by simp
next
  case NaN
  then show ?thesis using assms by simp
qed

lemma fl_add_one_ge:
  assumes "delivery d" "f64_le (Finite 0) p"
  shows "f64_le (Finite 1) (fl_add d (Finite 1) p)"
  using assms(2) delivery_ge_one [OF assms(1), of "1 + a" for a] by (cases p) simp_all

lemma fl_add_one_mono:
  assumes "delivery d" "f64_le p q"
  shows "f64_le (fl_add d (Finite 1) p) (fl_add d (Finite 1) q)"
  using assms(2) delivery_not_NaN [OF assms(1)] delivery_mono [OF assms(1)]
  by (cases p; cases q) (simp_all add: f64_le_PosInf f64_le_NegInf)

lemma fl_log_nonneg:
  assumes "delivery d" "f64_le (Finite 1) p"
  shows "f64_le (Finite 0) (fl_log d p)"
proof (cases p)
  case (Finite a)
  then have "1 \<le> a" using assms(2) by simp
  then have "0 \<le> ln a" by simp
  then show ?thesis using Finite \<open>1 \<le> a\<close> delivery_nonneg [OF assms(1)] by simp
qed (use assms in simp_all)

lemma fl_log_mono:
  assumes "delivery d" "f64_le (Finite 1) p" "f64_le p q"
  shows "f64_le (fl_log d p) (fl_log d q)"
proof (cases p)
  case (Finite a)
  then have a: "1 \<le> a" using assms(2) by simp
  show ?thesis
  proof (cases q)
    case (Finite b)
    then have "a \<le> b" using assms(3) \<open>p = Finite a\<close> by simp
    then have "ln a \<le> ln b" using a by simp
    then show ?thesis
      using Finite \<open>p = Finite a\<close> a \<open>a \<le> b\<close> delivery_mono [OF assms(1)] by simp
  next
    case PosInf
    then show ?thesis
      using \<open>p = Finite a\<close> a delivery_not_NaN [OF assms(1)] by (simp add: f64_le_PosInf)
  qed (use assms \<open>p = Finite a\<close> in simp_all)
next
  case PosInf
  then show ?thesis using assms by (cases q) simp_all
qed (use assms in simp_all)

lemma fl_mul_mono:
  assumes "delivery d" "0 \<le> r" "u \<le> v"
  shows "f64_le (fl_mul d (Finite r) (Finite u)) (fl_mul d (Finite r) (Finite v))"
  using assms by (simp add: delivery_mono mult_left_mono)

lemma softplus_fl_nonneg:
  assumes "delivery d"
  shows "f64_le (Finite 0)
           (fl_log d (fl_add d (Finite 1) (fl_exp d (fl_mul d (Finite r) (Finite u)))))"
proof -
  have "fl_mul d (Finite r) (Finite u) \<noteq> NaN"
    using delivery_not_NaN [OF assms] by simp
  then show ?thesis
    by (intro fl_log_nonneg fl_add_one_ge fl_exp_nonneg assms)
qed

lemma softplus_fl_mono:
  assumes "delivery d" "0 \<le> r" "u \<le> v"
  shows "f64_le (fl_log d (fl_add d (Finite 1) (fl_exp d (fl_mul d (Finite r) (Finite u)))))
           (fl_log d (fl_add d (Finite 1) (fl_exp d (fl_mul d (Finite r) (Finite v)))))"
proof -
  have "fl_mul d (Finite r) (Finite u) \<noteq> NaN"
    using delivery_not_NaN [OF assms(1)] by simp
  then have "f64_le (Finite 1) (fl_add d (Finite 1) (fl_exp d (fl_mul d (Finite r) (Finite u))))"
    by (intro fl_add_one_ge fl_exp_nonneg assms)
  then show ?thesis
    by (intro fl_log_mono fl_add_one_mono fl_exp_mono fl_mul_mono assms)
qed

subsection \<open>The delivery with underflow\<close>

lemma float64_underflow_pos: "0 < float64_underflow"
  by (simp add: float64_underflow_def)

lemma float64_underflow_lt_1: "float64_underflow < 1"
  by (simp add: float64_underflow_def)

lemma float64_underflow_lt_overflow: "float64_underflow < float64_overflow"
  using float64_underflow_lt_1 float64_overflow_gt by linarith

lemma delivery_to_float64_flush: "delivery to_float64_flush"
  using float64_underflow_pos float64_underflow_lt_1 float64_overflow_gt
  by (auto simp: delivery_def to_float64_flush_def to_float64_def)

lemma to_float64_flush_Finite:
  "float64_underflow < \<bar>r\<bar> \<Longrightarrow> \<bar>r\<bar> < float64_overflow \<Longrightarrow> to_float64_flush r = Finite r"
  by (auto simp: to_float64_flush_def to_float64_def)

lemma to_float64_flush_zero: "\<bar>r\<bar> \<le> float64_underflow \<Longrightarrow> to_float64_flush r = Finite 0"
  by (simp add: to_float64_flush_def)

lemma to_float64_flush_PosInf: "float64_overflow \<le> r \<Longrightarrow> to_float64_flush r = PosInf"
  using float64_underflow_lt_overflow by (auto simp: to_float64_flush_def to_float64_def)

lemma exp_minus_1000_underflows: "exp (- 1000 :: real) \<le> float64_underflow"
proof -
  have "(5 :: real) \<le> exp 2"
    using exp_lower_Taylor_quadratic [of "2 :: real"] by simp
  then have "(5 :: real) ^ 500 \<le> exp 2 ^ 500"
    by (intro power_mono) simp_all
  also have "exp (2 :: real) ^ 500 = exp (of_nat 500 * 2)"
    by (rule exp_of_nat_mult [symmetric])
  also have "\<dots> = exp 1000" by simp
  finally have "(2 :: real) ^ 1075 \<le> exp 1000" by simp
  then have "1 / exp (1000 :: real) \<le> 1 / 2 ^ 1075"
    by (intro divide_left_mono) simp_all
  then show ?thesis by (simp add: exp_minus float64_underflow_def inverse_eq_divide)
qed

lemma exp_1001_overflows: "float64_overflow \<le> exp (1001 :: real)"
proof -
  have "exp (1000 :: real) \<le> exp 1001" by simp
  then show ?thesis using exp_1000_overflows by linarith
qed


lemma float64_overflow_gt_10000: "10000 < float64_overflow"
  by (simp add: float64_overflow_def)

lemma exp_minus_2000_underflows: "exp (- 2000 :: real) \<le> float64_underflow"
proof -
  have "exp (- 2000 :: real) \<le> exp (- 1000)" by simp
  then show ?thesis using exp_minus_1000_underflows by linarith
qed

lemma flush_0: "to_float64_flush 0 = Finite 0"
  using float64_underflow_pos by (simp add: to_float64_flush_def)

lemma flush_1: "to_float64_flush 1 = Finite 1"
  using delivery_to_float64_flush by (simp add: delivery_def)

lemma flush_mid: "1 \<le> \<bar>r\<bar> \<Longrightarrow> \<bar>r\<bar> < 10000 \<Longrightarrow> to_float64_flush r = Finite r"
  using float64_underflow_lt_1 float64_overflow_gt_10000
  by (intro to_float64_flush_Finite) linarith+

lemma flush_exp_underflow:
  "exp a \<le> float64_underflow \<Longrightarrow> to_float64_flush (exp a) = Finite 0" for a :: real
  by (simp add: to_float64_flush_zero)

lemma flush_exp_in_range:
  fixes a :: real
  assumes "1 \<le> exp a" "1 + exp a < float64_overflow"
  shows "to_float64_flush (exp a) = Finite (exp a)"
proof -
  have "float64_underflow < exp a" "exp a < float64_overflow"
    using assms float64_underflow_lt_1 by linarith+
  then show ?thesis using to_float64_flush_Finite [of "exp a"] by simp
qed

text \<open>For the operations but the logarithm, \<open>to_float64\<close> as the delivery gives the range model.\<close>

lemma fl_mul_to_float64: "fl_mul to_float64 p q = f64_mul p q"
  by (cases p; cases q) simp_all

lemma fl_add_to_float64: "fl_add to_float64 p q = f64_add p q"
  by (cases p; cases q) simp_all

lemma fl_div_to_float64: "fl_div to_float64 p q = f64_div p q"
  by (cases p; cases q) simp_all

lemma fl_exp_to_float64: "fl_exp to_float64 p = f64_exp p"
  by (cases p) simp_all

lemma delivery_to_float64: "delivery to_float64"
  using float64_overflow_gt by (auto simp: delivery_def to_float64_def)

subsection \<open>The value\<close>

lemma get_beta_fl_constructed:
  assumes "SoftPlus_new float_repr b = Inr self" "d (num_val b) = Finite r"
  shows "get_beta_fl d self = Inr (Finite r)"
  using assms by (simp add: get_beta_fl_def get_beta_constructed)

lemma delivered_steepness_nonneg:
  assumes "delivery d" "SoftPlus_new float_repr b = Inr self" "d (num_val b) = Finite r"
  shows "0 \<le> r"
proof -
  have "0 \<le> num_val b" using assms(2) by (simp add: SoftPlus_new_Inr)
  then show ?thesis using delivery_nonneg [OF assms(1), of "num_val b"] assms(3) by simp
qed

lemma SoftPlus_call_fl_value:
  assumes "get_beta_fl d self = Inr c"
  shows "SoftPlus_call_fl d self x =
           Inr \<lparr>shape = shape x,
                data = map (\<lambda>u. fl_log d (fl_add d (Finite 1) (fl_exp d (fl_mul d c u)))) (data x)\<rparr>"
  using assms by (simp add: SoftPlus_call_fl_def np_map_def comp_def)

lemma SoftPlus_gradient_fl_value:
  assumes "get_beta_fl d self = Inr c"
  shows "SoftPlus_gradient_fl d self x =
           Inr \<lparr>shape = shape x,
                data = map (\<lambda>u. fl_div d (fl_mul d c (fl_exp d (fl_mul d c u)))
                                  (fl_add d (Finite 1) (fl_exp d (fl_mul d c u)))) (data x)\<rparr>"
  using assms
  by (simp add: SoftPlus_gradient_fl_def np_map_def np_map2_def Let_def comp_def map2_same)

text \<open>
  C6, as the code has it. Let results be delivered by any \<open>d\<close> with \<open>delivery d\<close>, and the
  steepness \<open>\<beta> > 0\<close> as the finite \<open>r\<close>. At every finite element of \<open>x\<close>, the element of
  \<^verbatim>\<open>__call__(x)\<close> is at least \<open>0\<close>: it is \<^verbatim>\<open>inf\<close> or a finite number that is not negative.
  The value does not decrease with the input: where \<open>x\<^sub>i \<le> y\<^sub>i\<close> are finite, element \<open>i\<close> of
  \<^verbatim>\<open>__call__(x)\<close> is at most element \<open>i\<close> of \<^verbatim>\<open>__call__(y)\<close>.
\<close>

theorem SoftPlus_call_fl_nonneg_monotone:
  assumes "delivery d" and "SoftPlus_new float_repr b = Inr self"
    and "d (num_val b) = Finite r"
  shows "\<exists>vx vy. SoftPlus_call_fl d self x = Inr vx \<and> SoftPlus_call_fl d self y = Inr vy \<and>
           (\<forall>i u. i < length (data x) \<and> data x ! i = Finite u \<longrightarrow>
              f64_le (Finite 0) (data vx ! i)) \<and>
           (\<forall>i u v. i < length (data x) \<and> i < length (data y) \<and>
              data x ! i = Finite u \<and> data y ! i = Finite v \<and> u \<le> v \<longrightarrow>
                f64_le (data vx ! i) (data vy ! i))"
proof -
  have gb: "get_beta_fl d self = Inr (Finite r)"
    using assms(2,3) by (rule get_beta_fl_constructed)
  have r: "0 \<le> r" using assms by (rule delivered_steepness_nonneg)
  show ?thesis
    using softplus_fl_nonneg [OF assms(1), of r] softplus_fl_mono [OF assms(1) r]
    by (auto simp: SoftPlus_call_fl_value [OF gb]
        simp del: fl_mul.simps fl_exp.simps fl_add.simps fl_log.simps)
qed

theorem SoftPlus_call_fl_nonneg_monotone_witness:
  "delivery to_float64_flush \<and>
   SoftPlus_new (\<lambda>r. []) (PyInt 3) = Inr \<lparr>type_name = ''SoftPlus'', beta = Some (PyInt 3)\<rparr> \<and>
   to_float64_flush (num_val (PyInt 3)) = Finite 3 \<and>
   (\<exists>vx vy. SoftPlus_call_fl to_float64_flush \<lparr>type_name = ''SoftPlus'', beta = Some (PyInt 3)\<rparr>
              \<lparr>shape = [2], data = [Finite (- 1000), Finite 2]\<rparr> = Inr vx \<and>
            SoftPlus_call_fl to_float64_flush \<lparr>type_name = ''SoftPlus'', beta = Some (PyInt 3)\<rparr>
              \<lparr>shape = [2], data = [Finite (- 5), Finite 1000]\<rparr> = Inr vy \<and>
            f64_le (Finite 0) (data vx ! 0) \<and> f64_le (Finite 0) (data vx ! 1) \<and>
            f64_le (data vx ! 0) (data vy ! 0) \<and> f64_le (data vx ! 1) (data vy ! 1))"
proof -
  let ?s = "\<lparr>type_name = ''SoftPlus'', beta = Some (PyInt 3)\<rparr>"
  let ?x = "\<lparr>shape = [2], data = [Finite (- 1000), Finite 2]\<rparr>"
  let ?y = "\<lparr>shape = [2], data = [Finite (- 5), Finite 1000]\<rparr>"
  have h1: "delivery to_float64_flush" by (rule delivery_to_float64_flush)
  have h2: "SoftPlus_new (\<lambda>r. []) (PyInt 3) = Inr ?s" by (simp add: SoftPlus_new_Inr)
  have h3: "to_float64_flush (num_val (PyInt 3)) = Finite 3" by (simp add: flush_mid)
  obtain vx vy where v: "SoftPlus_call_fl to_float64_flush ?s ?x = Inr vx"
    "SoftPlus_call_fl to_float64_flush ?s ?y = Inr vy"
    and pos: "\<forall>i u. i < length (data ?x) \<and> data ?x ! i = Finite u \<longrightarrow>
                f64_le (Finite 0) (data vx ! i)"
    and mono: "\<forall>i u v. i < length (data ?x) \<and> i < length (data ?y) \<and>
                 data ?x ! i = Finite u \<and> data ?y ! i = Finite v \<and> u \<le> v \<longrightarrow>
                   f64_le (data vx ! i) (data vy ! i)"
    using SoftPlus_call_fl_nonneg_monotone [OF h1 h2 h3, of ?x ?y] by blast
  have p0: "f64_le (Finite 0) (data vx ! 0)" using pos [rule_format, of 0 "- 1000"] by simp
  have p1: "f64_le (Finite 0) (data vx ! 1)" using pos [rule_format, of 1 2] by simp
  have m0: "f64_le (data vx ! 0) (data vy ! 0)" using mono [rule_format, of 0 "- 1000" "- 5"] by simp
  have m1: "f64_le (data vx ! 1) (data vy ! 1)" using mono [rule_format, of 1 2 1000] by simp
  show ?thesis using h1 h2 h3 v p0 p1 m0 m1 by blast
qed

text \<open>
  C6 as stated fails with \<open>\<beta> = 1\<close>, in both halves. At \<open>x = -1000\<close> the exponential
  underflows to \<open>0\<close> and the value is \<open>ln 1 = 0\<close>, which is not positive. At \<open>x = 1000\<close> and at
  \<open>x = 1001\<close> the value is \<^verbatim>\<open>inf\<close>: it has not increased.
\<close>

theorem SoftPlus_call_fl_zero_and_equal:
  "SoftPlus_new (\<lambda>r. []) (PyInt 1) = Inr \<lparr>type_name = ''SoftPlus'', beta = Some (PyInt 1)\<rparr> \<and>
   SoftPlus_call_fl to_float64_flush \<lparr>type_name = ''SoftPlus'', beta = Some (PyInt 1)\<rparr>
     \<lparr>shape = [1], data = [Finite (- 1000)]\<rparr> = Inr \<lparr>shape = [1], data = [Finite 0]\<rparr> \<and>
   \<not> f64_lt (Finite 0) (Finite 0) \<and>
   SoftPlus_call_fl to_float64_flush \<lparr>type_name = ''SoftPlus'', beta = Some (PyInt 1)\<rparr>
     \<lparr>shape = [1], data = [Finite 1000]\<rparr> = Inr \<lparr>shape = [1], data = [PosInf]\<rparr> \<and>
   SoftPlus_call_fl to_float64_flush \<lparr>type_name = ''SoftPlus'', beta = Some (PyInt 1)\<rparr>
     \<lparr>shape = [1], data = [Finite 1001]\<rparr> = Inr \<lparr>shape = [1], data = [PosInf]\<rparr> \<and>
   \<not> f64_lt PosInf PosInf"
proof -
  let ?s = "\<lparr>type_name = ''SoftPlus'', beta = Some (PyInt 1)\<rparr>"
  have new: "SoftPlus_new (\<lambda>r. []) (PyInt 1) = Inr ?s" by (simp add: SoftPlus_new_Inr)
  have gb: "get_beta_fl to_float64_flush ?s = Inr (Finite 1)"
    using get_beta_fl_constructed [OF new, of to_float64_flush 1] by (simp add: flush_1)
  show ?thesis
    using new
    by (simp add: SoftPlus_call_fl_value [OF gb] flush_mid flush_0 flush_1
        flush_exp_underflow [OF exp_minus_1000_underflows]
        to_float64_flush_PosInf [OF exp_1000_overflows]
        to_float64_flush_PosInf [OF exp_1001_overflows])
qed

subsection \<open>The gradient\<close>

lemma exp_709_ge_1: "1 \<le> exp (1419 / 2 :: real)"
  by simp

lemma fl_exp_mul_finite_nonneg:
  assumes "delivery d" "fl_exp d (fl_mul d (Finite r) (Finite v)) = Finite e"
  shows "0 \<le> e"
proof -
  have "fl_mul d (Finite r) (Finite v) \<noteq> NaN"
    using delivery_not_NaN [OF assms(1)] by simp
  then show ?thesis
    using fl_exp_nonneg [OF assms(1), of "fl_mul d (Finite r) (Finite v)"] assms(2) by simp
qed

lemma fl_exp_mul_le_one:
  assumes "delivery d" "0 \<le> r" "v \<le> 0"
  shows "f64_le (fl_exp d (fl_mul d (Finite r) (Finite v))) (Finite 1)"
proof -
  have "r * v \<le> 0" using assms(2,3) by (simp add: mult_nonneg_nonpos)
  then have "f64_le (d (r * v)) (d 0)" by (rule delivery_mono [OF assms(1)])
  then have "f64_le (fl_mul d (Finite r) (Finite v)) (Finite 0)"
    using assms(1) by (simp add: delivery_def)
  then have "f64_le (fl_exp d (fl_mul d (Finite r) (Finite v))) (fl_exp d (Finite 0))"
    by (rule fl_exp_mono [OF assms(1)])
  then show ?thesis using assms(1) by (simp add: delivery_def)
qed

lemma fl_exp_mul_PosInf_steepness:
  assumes "delivery d" "0 \<le> r" "fl_exp d (fl_mul d (Finite r) (Finite v)) = PosInf"
  shows "0 < r"
proof (rule ccontr)
  assume "\<not> 0 < r"
  then have "r = 0" using assms(2) by simp
  then have "fl_exp d (fl_mul d (Finite r) (Finite v)) = Finite 1"
    using assms(1) by (simp add: delivery_def)
  then show False using assms(3) by simp
qed

lemma gradient_fl_nan:
  "0 < c \<Longrightarrow> fl_div d (fl_mul d (Finite c) PosInf) (fl_add d (Finite 1) PosInf) = NaN"
  by (simp add: signed_inf_def)

lemma gradient_fl_nonneg:
  assumes "delivery d" "0 \<le> r" "0 \<le> e" "d (1 + e) \<noteq> PosInf"
  shows "f64_le (Finite 0)
           (fl_div d (fl_mul d (Finite r) (Finite e)) (fl_add d (Finite 1) (Finite e)))"
    and "d (r * e) = PosInf \<Longrightarrow>
           fl_div d (fl_mul d (Finite r) (Finite e)) (fl_add d (Finite 1) (Finite e)) = PosInf"
proof -
  have "f64_le (Finite 1) (d (1 + e))"
    using assms(3) by (intro delivery_ge_one [OF assms(1)]) simp
  then obtain m where m: "d (1 + e) = Finite m" "1 \<le> m"
    using assms(4) by (auto simp: f64_le_Finite_1)
  have "f64_le (Finite 0) (d (r * e))"
    using assms(2,3) by (intro delivery_nonneg [OF assms(1)]) simp
  then consider "d (r * e) = PosInf" | n where "d (r * e) = Finite n" "0 \<le> n"
    by (auto simp: f64_le_Finite_0)
  then show "f64_le (Finite 0)
           (fl_div d (fl_mul d (Finite r) (Finite e)) (fl_add d (Finite 1) (Finite e)))"
  proof cases
    case 1
    then show ?thesis using m by simp
  next
    case 2
    have "0 \<le> n / m" using 2(2) m(2) by simp
    then have "f64_le (Finite 0) (d (n / m))" by (rule delivery_nonneg [OF assms(1)])
    then show ?thesis using 2(1) m by simp
  qed
  show "fl_div d (fl_mul d (Finite r) (Finite e)) (fl_add d (Finite 1) (Finite e)) = PosInf"
    if "d (r * e) = PosInf"
    using that m by simp
qed

lemma gradient_fl_le_steepness:
  assumes "delivery d" "0 \<le> r" "d r = Finite r" "0 \<le> e" "e \<le> 1"
  shows "f64_le (Finite 0)
           (fl_div d (fl_mul d (Finite r) (Finite e)) (fl_add d (Finite 1) (Finite e)))"
    and "f64_le (fl_div d (fl_mul d (Finite r) (Finite e)) (fl_add d (Finite 1) (Finite e)))
           (Finite r)"
proof -
  have "r * e \<le> r" using assms(2,5) by (simp add: mult_left_le)
  then have "f64_le (d (r * e)) (Finite r)"
    using delivery_mono [OF assms(1), of "r * e" r] assms(3) by simp
  moreover have "f64_le (Finite 0) (d (r * e))"
    using assms(2,4) by (intro delivery_nonneg [OF assms(1)]) simp
  ultimately obtain n where n: "d (r * e) = Finite n" "0 \<le> n" "n \<le> r"
    by (cases "d (r * e)") auto
  have "f64_le (Finite 1) (d (1 + e))"
    using assms(4) by (intro delivery_ge_one [OF assms(1)]) simp
  then consider "d (1 + e) = PosInf" | m where "d (1 + e) = Finite m" "1 \<le> m"
    by (auto simp: f64_le_Finite_1)
  then have "f64_le (Finite 0)
           (fl_div d (fl_mul d (Finite r) (Finite e)) (fl_add d (Finite 1) (Finite e))) \<and>
         f64_le (fl_div d (fl_mul d (Finite r) (Finite e)) (fl_add d (Finite 1) (Finite e)))
           (Finite r)"
  proof cases
    case 1
    then show ?thesis using n assms(2) by simp
  next
    case 2
    have a: "0 \<le> n / m" using n(2) 2(2) by simp
    have "n * 1 \<le> n * m" using n(2) 2(2) by (intro mult_left_mono) simp_all
    then have "n / m \<le> n" using 2(2) by (simp add: pos_divide_le_eq)
    then have b: "n / m \<le> r" using n(3) by linarith
    have "f64_le (Finite 0) (d (n / m))" using a by (rule delivery_nonneg [OF assms(1)])
    moreover have "f64_le (d (n / m)) (Finite r)"
      using delivery_mono [OF assms(1) b] assms(3) by simp
    ultimately show ?thesis using n(1) 2 by simp
  qed
  then show "f64_le (Finite 0)
           (fl_div d (fl_mul d (Finite r) (Finite e)) (fl_add d (Finite 1) (Finite e)))"
    and "f64_le (fl_div d (fl_mul d (Finite r) (Finite e)) (fl_add d (Finite 1) (Finite e)))
           (Finite r)"
    by simp_all
qed

text \<open>
  C7, as the code has it. Let results be delivered by any \<open>d\<close> with \<open>delivery d\<close>, and the
  steepness \<open>\<beta> > 0\<close> as the finite \<open>r\<close>, which \<open>d\<close> delivers as it is. Let \<open>v\<close> be a finite
  element of \<open>x\<close>. Where \<^verbatim>\<open>np.exp(self.beta * x)\<close> is \<^verbatim>\<open>inf\<close> at \<open>v\<close>, the element of
  \<^verbatim>\<open>gradient(x)\<close> is \<^verbatim>\<open>nan\<close>. Where it is a finite \<open>e\<close> and \<open>1 + e\<close> is not delivered as \<^verbatim>\<open>inf\<close>, the
  element is at least \<open>0\<close>, and it is \<^verbatim>\<open>inf\<close> if \<open>r * e\<close> is delivered as \<^verbatim>\<open>inf\<close>. Where \<open>v \<le> 0\<close>, the
  element is at least \<open>0\<close> and at most \<open>r\<close>.
\<close>

theorem SoftPlus_gradient_fl_sign_and_bound:
  assumes "delivery d" and "SoftPlus_new float_repr b = Inr self"
    and "d (num_val b) = Finite r" and "d r = Finite r"
  shows "\<exists>g. SoftPlus_gradient_fl d self x = Inr g \<and> shape g = shape x \<and>
           length (data g) = length (data x) \<and>
           (\<forall>i v. i < length (data x) \<and> data x ! i = Finite v \<longrightarrow>
              (fl_exp d (fl_mul d (Finite r) (Finite v)) = PosInf \<longrightarrow> data g ! i = NaN) \<and>
              (\<forall>e. fl_exp d (fl_mul d (Finite r) (Finite v)) = Finite e \<and> d (1 + e) \<noteq> PosInf \<longrightarrow>
                 f64_le (Finite 0) (data g ! i) \<and>
                 (d (r * e) = PosInf \<longrightarrow> data g ! i = PosInf)) \<and>
              (v \<le> 0 \<longrightarrow> f64_le (Finite 0) (data g ! i) \<and> f64_le (data g ! i) (Finite r)))"
proof -
  have gb: "get_beta_fl d self = Inr (Finite r)"
    using assms(2,3) by (rule get_beta_fl_constructed)
  have r: "0 \<le> r" using assms(1-3) by (rule delivered_steepness_nonneg)
  let ?E = "\<lambda>u. fl_exp d (fl_mul d (Finite r) u)"
  let ?G = "\<lambda>u. fl_div d (fl_mul d (Finite r) (?E u)) (fl_add d (Finite 1) (?E u))"
  have nan: "?G (Finite v) = NaN" if "?E (Finite v) = PosInf" for v
    unfolding that using fl_exp_mul_PosInf_steepness [OF assms(1) r that]
    by (rule gradient_fl_nan)
  have pos: "f64_le (Finite 0) (?G (Finite v))"
    if "?E (Finite v) = Finite e" "d (1 + e) \<noteq> PosInf" for v e
    unfolding that(1)
    using assms(1) r fl_exp_mul_finite_nonneg [OF assms(1) that(1)] that(2)
    by (rule gradient_fl_nonneg(1))
  have inf: "?G (Finite v) = PosInf"
    if "?E (Finite v) = Finite e" "d (1 + e) \<noteq> PosInf" "d (r * e) = PosInf" for v e
    unfolding that(1)
    using assms(1) r fl_exp_mul_finite_nonneg [OF assms(1) that(1)] that(2,3)
    by (rule gradient_fl_nonneg(2))
  have le: "f64_le (Finite 0) (?G (Finite v)) \<and> f64_le (?G (Finite v)) (Finite r)"
    if "v \<le> 0" for v
  proof -
    have "f64_le (?E (Finite v)) (Finite 1)"
      using assms(1) r that by (rule fl_exp_mul_le_one)
    moreover have "fl_mul d (Finite r) (Finite v) \<noteq> NaN"
      using delivery_not_NaN [OF assms(1)] by simp
    then have "f64_le (Finite 0) (?E (Finite v))"
      by (rule fl_exp_nonneg [OF assms(1)])
    ultimately obtain e where e: "?E (Finite v) = Finite e" "0 \<le> e" "e \<le> 1"
      by (cases "?E (Finite v)") auto
    show ?thesis
      unfolding e(1)
      using gradient_fl_le_steepness [OF assms(1) r assms(4) e(2,3)] by simp
  qed
  have g: "SoftPlus_gradient_fl d self x = Inr \<lparr>shape = shape x, data = map ?G (data x)\<rparr>"
    using gb by (rule SoftPlus_gradient_fl_value)
  show ?thesis
  proof (intro exI [of _ "\<lparr>shape = shape x, data = map ?G (data x)\<rparr>"] conjI allI impI)
    show "SoftPlus_gradient_fl d self x = Inr \<lparr>shape = shape x, data = map ?G (data x)\<rparr>"
      by (rule g)
  next
    fix i v
    assume a: "i < length (data x) \<and> data x ! i = Finite v"
      and b: "?E (Finite v) = PosInf"
    show "data \<lparr>shape = shape x, data = map ?G (data x)\<rparr> ! i = NaN"
      using a nan [OF b] by simp
  next
    fix i v e
    assume a: "i < length (data x) \<and> data x ! i = Finite v"
      and b: "?E (Finite v) = Finite e \<and> d (1 + e) \<noteq> PosInf"
    show "f64_le (Finite 0) (data \<lparr>shape = shape x, data = map ?G (data x)\<rparr> ! i)"
      using a pos [of v e] b by simp
  next
    fix i v e
    assume a: "i < length (data x) \<and> data x ! i = Finite v"
      and b: "?E (Finite v) = Finite e \<and> d (1 + e) \<noteq> PosInf"
      and c: "d (r * e) = PosInf"
    show "data \<lparr>shape = shape x, data = map ?G (data x)\<rparr> ! i = PosInf"
      using a inf [of v e] b c by simp
  next
    fix i v
    assume a: "i < length (data x) \<and> data x ! i = Finite v" and b: "v \<le> 0"
    show "f64_le (Finite 0) (data \<lparr>shape = shape x, data = map ?G (data x)\<rparr> ! i)"
      using a le [OF b] by simp
  next
    fix i v
    assume a: "i < length (data x) \<and> data x ! i = Finite v" and b: "v \<le> 0"
    show "f64_le (data \<lparr>shape = shape x, data = map ?G (data x)\<rparr> ! i) (Finite r)"
      using a le [OF b] by simp
  qed simp_all
qed

theorem SoftPlus_gradient_fl_sign_and_bound_witness:
  "delivery to_float64_flush \<and>
   SoftPlus_new (\<lambda>r. []) (PyInt 2) = Inr \<lparr>type_name = ''SoftPlus'', beta = Some (PyInt 2)\<rparr> \<and>
   to_float64_flush (num_val (PyInt 2)) = Finite 2 \<and> to_float64_flush 2 = Finite 2 \<and>
   - 1000 \<le> (0 :: real) \<and>
   fl_exp to_float64_flush (fl_mul to_float64_flush (Finite 2) (Finite (1419 / 4))) =
     Finite (exp (1419 / 2)) \<and>
   to_float64_flush (1 + exp (1419 / 2)) \<noteq> PosInf \<and>
   to_float64_flush (2 * exp (1419 / 2)) = PosInf \<and>
   fl_exp to_float64_flush (fl_mul to_float64_flush (Finite 2) (Finite 500)) = PosInf \<and>
   (\<exists>g. SoftPlus_gradient_fl to_float64_flush \<lparr>type_name = ''SoftPlus'', beta = Some (PyInt 2)\<rparr>
          \<lparr>shape = [3], data = [Finite (- 1000), Finite (1419 / 4), Finite 500]\<rparr> = Inr g \<and>
        shape g = [3] \<and> length (data g) = 3 \<and>
        f64_le (Finite 0) (data g ! 0) \<and> f64_le (data g ! 0) (Finite 2) \<and>
        f64_le (Finite 0) (data g ! 1) \<and> data g ! 1 = PosInf \<and> data g ! 2 = NaN)"
proof -
  let ?s = "\<lparr>type_name = ''SoftPlus'', beta = Some (PyInt 2)\<rparr>"
  let ?x = "\<lparr>shape = [3], data = [Finite (- 1000), Finite (1419 / 4), Finite 500]\<rparr>"
  let ?F = "to_float64_flush"
  have h1: "delivery ?F" by (rule delivery_to_float64_flush)
  have h2: "SoftPlus_new (\<lambda>r. []) (PyInt 2) = Inr ?s" by (simp add: SoftPlus_new_Inr)
  have h3: "?F (num_val (PyInt 2)) = Finite 2" by (simp add: flush_mid)
  have h4: "?F 2 = Finite 2" by (simp add: flush_mid)
  have b: "fl_exp ?F (fl_mul ?F (Finite 2) (Finite (1419 / 4))) = Finite (exp (1419 / 2))"
    by (simp add: flush_mid flush_exp_in_range [OF exp_709_ge_1 exp_709_in_range])
  have "float64_underflow < \<bar>1 + exp (1419 / 2 :: real)\<bar>"
    "\<bar>1 + exp (1419 / 2 :: real)\<bar> < float64_overflow"
    using float64_underflow_lt_1 exp_709_in_range exp_709_ge_1 by linarith+
  then have "?F (1 + exp (1419 / 2)) = Finite (1 + exp (1419 / 2))"
    by (rule to_float64_flush_Finite)
  then have b1: "?F (1 + exp (1419 / 2)) \<noteq> PosInf" by simp
  have b2: "?F (2 * exp (1419 / 2)) = PosInf"
    using two_exp_709_overflows by (rule to_float64_flush_PosInf)
  have c: "fl_exp ?F (fl_mul ?F (Finite 2) (Finite 500)) = PosInf"
    by (simp add: flush_mid to_float64_flush_PosInf [OF exp_1000_overflows])
  obtain g where g: "SoftPlus_gradient_fl ?F ?s ?x = Inr g" "shape g = shape ?x"
    "length (data g) = length (data ?x)"
    and el: "\<forall>i v. i < length (data ?x) \<and> data ?x ! i = Finite v \<longrightarrow>
              (fl_exp ?F (fl_mul ?F (Finite 2) (Finite v)) = PosInf \<longrightarrow> data g ! i = NaN) \<and>
              (\<forall>e. fl_exp ?F (fl_mul ?F (Finite 2) (Finite v)) = Finite e \<and> ?F (1 + e) \<noteq> PosInf \<longrightarrow>
                 f64_le (Finite 0) (data g ! i) \<and>
                 (?F (2 * e) = PosInf \<longrightarrow> data g ! i = PosInf)) \<and>
              (v \<le> 0 \<longrightarrow> f64_le (Finite 0) (data g ! i) \<and> f64_le (data g ! i) (Finite 2))"
    using SoftPlus_gradient_fl_sign_and_bound [OF h1 h2 h3 h4, of ?x] by blast
  have i0: "0 < length (data ?x) \<and> data ?x ! 0 = Finite (- 1000)" by simp
  have i1: "1 < length (data ?x) \<and> data ?x ! 1 = Finite (1419 / 4)" by simp
  have i2: "2 < length (data ?x) \<and> data ?x ! 2 = Finite 500" by simp
  have e0: "f64_le (Finite 0) (data g ! 0) \<and> f64_le (data g ! 0) (Finite 2)"
    using el [rule_format, OF i0, THEN conjunct2, THEN conjunct2] by simp
  have e1: "f64_le (Finite 0) (data g ! 1) \<and> data g ! 1 = PosInf"
    using el [rule_format, OF i1, THEN conjunct2, THEN conjunct1, rule_format,
        of "exp (1419 / 2)"] b b1 b2
    by (simp del: fl_mul.simps fl_exp.simps)
  have e2: "data g ! 2 = NaN"
    using el [rule_format, OF i2, THEN conjunct1] c by (simp del: fl_mul.simps fl_exp.simps)
  show ?thesis
    using h1 h2 h3 h4 b b1 b2 c g e0 e1 e2 by (intro conjI exI [of _ g]) simp_all
qed

text \<open>
  C7 as stated fails with \<open>\<beta> = 2\<close>. At \<open>x = -1000\<close> the exponential underflows and the
  gradient is \<open>0\<close>, which is not greater than \<open>0\<close>. At \<open>x = 354.75\<close> the product \<open>2 * exp 709.5\<close>
  is beyond float64 and the gradient is \<^verbatim>\<open>inf\<close>, which is not less than \<open>2\<close>. At \<open>x = 500\<close> the
  gradient is \<^verbatim>\<open>inf / inf\<close>, that is \<^verbatim>\<open>nan\<close>, which lies between no two numbers.
\<close>

theorem SoftPlus_gradient_fl_zero_inf_nan:
  "SoftPlus_new (\<lambda>r. []) (PyInt 2) = Inr \<lparr>type_name = ''SoftPlus'', beta = Some (PyInt 2)\<rparr> \<and>
   SoftPlus_gradient_fl to_float64_flush \<lparr>type_name = ''SoftPlus'', beta = Some (PyInt 2)\<rparr>
     \<lparr>shape = [3], data = [Finite (- 1000), Finite (1419 / 4), Finite 500]\<rparr> =
     Inr \<lparr>shape = [3], data = [Finite 0, PosInf, NaN]\<rparr> \<and>
   \<not> f64_lt (Finite 0) (Finite 0) \<and> \<not> f64_lt PosInf (Finite 2) \<and>
   \<not> f64_lt (Finite 0) NaN \<and> \<not> f64_lt NaN (Finite 2)"
proof -
  let ?s = "\<lparr>type_name = ''SoftPlus'', beta = Some (PyInt 2)\<rparr>"
  let ?F = "to_float64_flush"
  have new: "SoftPlus_new (\<lambda>r. []) (PyInt 2) = Inr ?s" by (simp add: SoftPlus_new_Inr)
  have gb: "get_beta_fl ?F ?s = Inr (Finite 2)"
    using get_beta_fl_constructed [OF new, of ?F 2] by (simp add: flush_mid)
  have "float64_underflow < \<bar>1 + exp (1419 / 2 :: real)\<bar>"
    "\<bar>1 + exp (1419 / 2 :: real)\<bar> < float64_overflow"
    using float64_underflow_lt_1 exp_709_in_range exp_709_ge_1 by linarith+
  then have den: "?F (1 + exp (1419 / 2)) = Finite (1 + exp (1419 / 2))"
    by (rule to_float64_flush_Finite)
  have p: "0 \<le> 1 + exp (1419 / 2 :: real)" using exp_709_ge_1 by linarith
  show ?thesis
    using new p
    by (simp add: SoftPlus_gradient_fl_value [OF gb] flush_mid flush_0 flush_1 den
        flush_exp_underflow [OF exp_minus_2000_underflows]
        flush_exp_in_range [OF exp_709_ge_1 exp_709_in_range]
        to_float64_flush_PosInf [OF two_exp_709_overflows]
        to_float64_flush_PosInf [OF exp_1000_overflows] signed_inf_def)
qed

section \<open>No side effects\<close>

lemma alloc_grows: "prefix h (snd (alloc c h))"
  by (simp add: alloc_def)

lemma read_beta_heap: "snd (read_beta self h) = h"
  by (simp add: read_beta_def split: sum.splits)

lemma h_unary_grows: "prefix h (snd (h_unary f r h))"
  by (simp add: h_unary_def alloc_def split: sum.splits)

lemma h_binary_grows: "prefix h (snd (h_binary f r s h))"
  by (simp add: h_binary_def alloc_def split: sum.splits)

lemma bind_prog_grows:
  assumes "\<And>h. prefix h (snd (m h))" and "\<And>v h. prefix h (snd (f v h))"
  shows "prefix h (snd (bind_prog m f h))"
proof (cases "m h")
  case (Pair r h')
  have 1: "prefix h h'" using assms(1) [of h] Pair by simp
  show ?thesis
  proof (cases r)
    case (Inl e)
    then show ?thesis using Pair 1 by (simp add: bind_prog_def)
  next
    case (Inr v)
    have "prefix h' (snd (f v h'))" by (rule assms(2))
    then show ?thesis using Pair Inr 1 by (auto simp: bind_prog_def)
  qed
qed

lemma read_beta_grows: "prefix h (snd (read_beta self h))"
  by (simp add: read_beta_heap)

lemma SoftPlus_call_heap_grows: "prefix h (snd (SoftPlus_call_heap self x h))"
  unfolding SoftPlus_call_heap_def h_mul_scalar_def h_exp_def h_add_scalar_def h_log_def
  by (intro bind_prog_grows read_beta_grows h_unary_grows)

lemma SoftPlus_gradient_heap_grows: "prefix h (snd (SoftPlus_gradient_heap self x h))"
  unfolding SoftPlus_gradient_heap_def h_mul_scalar_def h_exp_def h_add_scalar_def h_divide_def
  by (intro bind_prog_grows read_beta_grows h_unary_grows h_binary_grows)

lemma run_call_grows: "prefix h (snd (run_call self c h))"
  by (cases c) (simp_all add: SoftPlus_call_heap_grows SoftPlus_gradient_heap_grows)

lemma run_calls_grows: "prefix h (run_calls self cs h)"
proof (induction cs arbitrary: h)
  case Nil
  show ?case by simp
next
  case (Cons c cs)
  have "prefix h (snd (run_call self c h))" by (rule run_call_grows)
  moreover have "prefix (snd (run_call self c h)) (run_calls self cs (snd (run_call self c h)))"
    by (rule Cons.IH)
  ultimately show ?case by (auto intro: prefix_order.trans)
qed

lemma prefix_nth: "prefix h h' \<Longrightarrow> r < length h \<Longrightarrow> h' ! r = h ! r"
  by (auto simp: prefix_def nth_append)

lemma load_instance_prefix:
  "prefix h h' \<Longrightarrow> load_instance r h = Inr obj \<Longrightarrow> load_instance r h' = Inr obj"
  by (auto simp: load_instance_def prefix_def nth_append split: if_splits)

lemma load_array_prefix:
  "prefix h h' \<Longrightarrow> load_array r h = Inr a \<Longrightarrow> load_array r h' = Inr a"
  by (auto simp: load_array_def prefix_def nth_append split: if_splits)

lemma load_array_alloc: "load_array (length h) (h @ [Array y]) = Inr y"
  by (simp add: load_array_def)

lemma load_array_append:
  "load_array r h = Inr a \<Longrightarrow> load_array r (h @ zs) = Inr a"
  by (auto simp: load_array_def nth_append split: if_splits)

lemma load_instance_append:
  "load_instance r h = Inr a \<Longrightarrow> load_instance r (h @ zs) = Inr a"
  by (auto simp: load_instance_def nth_append split: if_splits)

lemma read_beta_loaded:
  "load_instance self h = Inr obj \<Longrightarrow> read_beta self h = (get_beta obj, h)"
  by (simp add: read_beta_def)

lemma h_unary_Inr:
  "load_array r h = Inr a \<Longrightarrow> f a = Inr y \<Longrightarrow> h_unary f r h = (Inr (length h), h @ [Array y])"
  by (simp add: h_unary_def alloc_def)

lemma h_unary_Inl:
  "load_array r h = Inr a \<Longrightarrow> f a = Inl e \<Longrightarrow> h_unary f r h = (Inl e, h)"
  by (simp add: h_unary_def)

lemma h_binary_Inr:
  "load_array r h = Inr a \<Longrightarrow> load_array s h = Inr b \<Longrightarrow> f a b = Inr y \<Longrightarrow>
     h_binary f r s h = (Inr (length h), h @ [Array y])"
  by (simp add: h_binary_def alloc_def)

lemma h_binary_Inl:
  "load_array r h = Inr a \<Longrightarrow> load_array s h = Inr b \<Longrightarrow> f a b = Inl e \<Longrightarrow>
     h_binary f r s h = (Inl e, h)"
  by (simp add: h_binary_def)

text \<open>
  The methods on the store compute what the methods on values compute: the array at the
  address returned is the array \<^verbatim>\<open>__call__\<close> (or \<^verbatim>\<open>gradient\<close>) returns.
\<close>

lemma SoftPlus_call_heap_agrees:
  assumes self: "load_instance self h = Inr obj" and x: "load_array x h = Inr a"
  shows "case SoftPlus_call obj a of
           Inl e \<Rightarrow> fst (SoftPlus_call_heap self x h) = Inl e
         | Inr y \<Rightarrow> \<exists>r. fst (SoftPlus_call_heap self x h) = Inr r \<and>
                       load_array r (snd (SoftPlus_call_heap self x h)) = Inr y"
proof (cases "get_beta obj")
  case (Inl e)
  then show ?thesis
    using self by (simp add: SoftPlus_call_def SoftPlus_call_heap_def bind_prog_def read_beta_def)
next
  case (Inr c)
  let ?t1 = "np_mul_scalar c a"
  let ?t2 = "np_exp ?t1"
  let ?t3 = "np_add_scalar 1 ?t2"
  let ?h1 = "h @ [Array ?t1]"
  let ?h2 = "?h1 @ [Array ?t2]"
  let ?h3 = "?h2 @ [Array ?t3]"
  have s0: "read_beta self h = (Inr c, h)"
    using self Inr by (simp add: read_beta_loaded)
  have s1: "h_mul_scalar c x h = (Inr (length h), ?h1)"
    unfolding h_mul_scalar_def using x by (rule h_unary_Inr) simp
  have s2: "h_exp (length h) ?h1 = (Inr (length ?h1), ?h2)"
    unfolding h_exp_def by (rule h_unary_Inr [OF load_array_alloc]) simp
  have s3: "h_add_scalar 1 (length ?h1) ?h2 = (Inr (length ?h2), ?h3)"
    unfolding h_add_scalar_def by (rule h_unary_Inr [OF load_array_alloc]) simp
  have run: "SoftPlus_call_heap self x h = h_log (length ?h2) ?h3"
    by (simp only: SoftPlus_call_heap_def bind_prog_def s0 s1 s2 s3 prod.case sum.case)
  have pure: "SoftPlus_call obj a = np_log ?t3"
    using Inr by (simp add: SoftPlus_call_def)
  show ?thesis
  proof (cases "np_log ?t3")
    case (Inl e)
    have "h_log (length ?h2) ?h3 = (Inl e, ?h3)"
      unfolding h_log_def by (rule h_unary_Inl [where f = np_log, OF load_array_alloc Inl])
    then show ?thesis using run pure Inl by simp
  next
    case (Inr y)
    have "h_log (length ?h2) ?h3 = (Inr (length ?h3), ?h3 @ [Array y])"
      unfolding h_log_def by (rule h_unary_Inr [where f = np_log, OF load_array_alloc Inr])
    then show ?thesis using run pure Inr load_array_alloc [of ?h3 y] by simp
  qed
qed

lemma SoftPlus_gradient_heap_agrees:
  assumes self: "load_instance self h = Inr obj" and x: "load_array x h = Inr a"
  shows "case SoftPlus_gradient obj a of
           Inl e \<Rightarrow> fst (SoftPlus_gradient_heap self x h) = Inl e
         | Inr y \<Rightarrow> \<exists>r. fst (SoftPlus_gradient_heap self x h) = Inr r \<and>
                       load_array r (snd (SoftPlus_gradient_heap self x h)) = Inr y"
proof (cases "get_beta obj")
  case (Inl e)
  then show ?thesis
    using self
    by (simp add: SoftPlus_gradient_def SoftPlus_gradient_heap_def bind_prog_def read_beta_def)
next
  case (Inr c)
  let ?t1 = "np_mul_scalar c a"
  let ?ex = "np_exp ?t1"
  let ?num = "np_mul_scalar c ?ex"
  let ?den = "np_add_scalar 1 ?ex"
  let ?h1 = "h @ [Array ?t1]"
  let ?h2 = "?h1 @ [Array ?ex]"
  let ?h3 = "?h2 @ [Array ?num]"
  let ?h4 = "?h3 @ [Array ?den]"
  have s0: "read_beta self h = (Inr c, h)"
    using self Inr by (simp add: read_beta_loaded)
  have s1: "h_mul_scalar c x h = (Inr (length h), ?h1)"
    unfolding h_mul_scalar_def using x by (rule h_unary_Inr) simp
  have s2: "h_exp (length h) ?h1 = (Inr (length ?h1), ?h2)"
    unfolding h_exp_def by (rule h_unary_Inr [OF load_array_alloc]) simp
  have "load_instance self ?h2 = Inr obj"
    using load_instance_append [OF self, of "[Array ?t1, Array ?ex]"] by simp
  then have s3: "read_beta self ?h2 = (Inr c, ?h2)"
    using Inr by (simp add: read_beta_loaded)
  have ex2: "load_array (length ?h1) ?h2 = Inr ?ex"
    by (rule load_array_alloc)
  have s4: "h_mul_scalar c (length ?h1) ?h2 = (Inr (length ?h2), ?h3)"
    unfolding h_mul_scalar_def by (rule h_unary_Inr [OF ex2]) simp
  have ex3: "load_array (length ?h1) ?h3 = Inr ?ex"
    by (rule load_array_append [OF ex2])
  have s5: "h_add_scalar 1 (length ?h1) ?h3 = (Inr (length ?h3), ?h4)"
    unfolding h_add_scalar_def by (rule h_unary_Inr [OF ex3]) simp
  have run: "SoftPlus_gradient_heap self x h = h_divide (length ?h2) (length ?h3) ?h4"
    by (simp only: SoftPlus_gradient_heap_def bind_prog_def s0 s1 s2 s3 s4 s5 prod.case
        sum.case)
  have num: "load_array (length ?h2) ?h4 = Inr ?num"
    by (rule load_array_append [OF load_array_alloc])
  have den: "load_array (length ?h3) ?h4 = Inr ?den"
    by (rule load_array_alloc)
  have pure: "SoftPlus_gradient obj a = np_divide ?num ?den"
    using Inr by (simp add: SoftPlus_gradient_def Let_def)
  show ?thesis
  proof (cases "np_divide ?num ?den")
    case (Inl e)
    have "h_divide (length ?h2) (length ?h3) ?h4 = (Inl e, ?h4)"
      unfolding h_divide_def by (rule h_binary_Inl [where f = np_divide, OF num den Inl])
    then show ?thesis using run pure Inl by simp
  next
    case (Inr y)
    have "h_divide (length ?h2) (length ?h3) ?h4 = (Inr (length ?h4), ?h4 @ [Array y])"
      unfolding h_divide_def by (rule h_binary_Inr [where f = np_divide, OF num den Inr])
    then show ?thesis using run pure Inr load_array_alloc [of ?h4 y] by simp
  qed
qed

text \<open>
  C9. After any number of calls of \<^verbatim>\<open>__call__\<close> and \<^verbatim>\<open>gradient\<close> on an instance, the instance
  (its slot \<open>beta\<close> is all its state) and the input array are what they were before, as
  is every other object that existed before: the calls only allocate.
\<close>

theorem SoftPlus_methods_no_side_effects:
  assumes "load_instance self h = Inr obj" and "load_array x h = Inr a"
  shows "load_instance self (run_calls self calls h) = Inr obj \<and>
         load_array x (run_calls self calls h) = Inr a \<and>
         (\<forall>r<length h. run_calls self calls h ! r = h ! r)"
  using assms run_calls_grows [of h self calls]
  by (auto intro: load_instance_prefix load_array_prefix prefix_nth)

theorem SoftPlus_methods_no_side_effects_witness:
  "load_instance 0 [Instance \<lparr>type_name = ''SoftPlus'', beta = Some (PyInt 2)\<rparr>,
                    Array \<lparr>shape = [1], data = [0]\<rparr>] =
     Inr \<lparr>type_name = ''SoftPlus'', beta = Some (PyInt 2)\<rparr> \<and>
   load_array 1 [Instance \<lparr>type_name = ''SoftPlus'', beta = Some (PyInt 2)\<rparr>,
                 Array \<lparr>shape = [1], data = [0]\<rparr>] = Inr \<lparr>shape = [1], data = [0]\<rparr> \<and>
   load_instance 0
     (run_calls 0 [Value 1, Gradient 1, Value 1]
        [Instance \<lparr>type_name = ''SoftPlus'', beta = Some (PyInt 2)\<rparr>,
         Array \<lparr>shape = [1], data = [0]\<rparr>]) =
     Inr \<lparr>type_name = ''SoftPlus'', beta = Some (PyInt 2)\<rparr> \<and>
   load_array 1
     (run_calls 0 [Value 1, Gradient 1, Value 1]
        [Instance \<lparr>type_name = ''SoftPlus'', beta = Some (PyInt 2)\<rparr>,
         Array \<lparr>shape = [1], data = [0]\<rparr>]) = Inr \<lparr>shape = [1], data = [0]\<rparr>"
proof -
  let ?h = "[Instance \<lparr>type_name = ''SoftPlus'', beta = Some (PyInt 2)\<rparr>,
             Array \<lparr>shape = [1], data = [0]\<rparr>]"
  have h1: "load_instance 0 ?h = Inr \<lparr>type_name = ''SoftPlus'', beta = Some (PyInt 2)\<rparr>"
    by (simp add: load_instance_def)
  have h2: "load_array 1 ?h = Inr \<lparr>shape = [1], data = [0]\<rparr>"
    by (simp add: load_array_def)
  show ?thesis
    using h1 h2 SoftPlus_methods_no_side_effects [OF h1 h2, of "[Value 1, Gradient 1, Value 1]"]
    by simp
qed

section \<open>The method of the BFGS adapter\<close>

text \<open>
  C5, as the code has it. The caller cannot override the method. With no \<^verbatim>\<open>method\<close> among
  the keyword options, the constructor hands the base initialiser the options unchanged
  together with \<^verbatim>\<open>method="BFGS"\<close>. With \<^verbatim>\<open>method\<close> among them, the call raises
  \<^verbatim>\<open>TypeError\<close> and the base initialiser is not reached.
\<close>

theorem BroydenFletcherGoldfarbShanno_init_method:
  "(kwargs ''method'' = None \<longrightarrow>
      (\<exists>kw. BroydenFletcherGoldfarbShanno_init base_init self objective kwargs =
               base_init self objective kw \<and>
            kw ''method'' = Some (PyString ''BFGS'') \<and>
            (\<forall>k. k \<noteq> ''method'' \<longrightarrow> kw k = kwargs k))) \<and>
   (kwargs ''method'' \<noteq> None \<longrightarrow>
      (\<exists>msg. BroydenFletcherGoldfarbShanno_init base_init self objective kwargs =
                Inl (TypeError msg)))"
  by (auto simp: BroydenFletcherGoldfarbShanno_init_def)

theorem BroydenFletcherGoldfarbShanno_init_method_witness:
  "[''tol'' \<mapsto> PyObject (1 :: nat)] ''method'' = None \<and>
   BroydenFletcherGoldfarbShanno_init (\<lambda>self objective kw. Inr kw) Map.empty ()
     [''tol'' \<mapsto> PyObject (1 :: nat)] =
     Inr [''tol'' \<mapsto> PyObject 1, ''method'' \<mapsto> PyString ''BFGS''] \<and>
   [''method'' \<mapsto> PyString ''BFGS'', ''tol'' \<mapsto> PyObject (1 :: nat)] ''method'' \<noteq> None \<and>
   (\<exists>msg. BroydenFletcherGoldfarbShanno_init (\<lambda>self objective kw. Inr kw) Map.empty ()
            [''method'' \<mapsto> PyString ''BFGS'', ''tol'' \<mapsto> PyObject (1 :: nat)] =
          Inl (TypeError msg))"
proof -
  have a: "[''tol'' \<mapsto> PyObject (1 :: nat)] ''method'' = None" by simp
  have b: "[''method'' \<mapsto> PyString ''BFGS'', ''tol'' \<mapsto> PyObject (1 :: nat)] ''method'' \<noteq> None"
    by simp
  obtain kw where kw: "BroydenFletcherGoldfarbShanno_init (\<lambda>self objective kw. Inr kw) Map.empty ()
       [''tol'' \<mapsto> PyObject (1 :: nat)] = Inr kw"
    "kw ''method'' = Some (PyString ''BFGS'')"
    "\<forall>k. k \<noteq> ''method'' \<longrightarrow> kw k = [''tol'' \<mapsto> PyObject (1 :: nat)] k"
    using BroydenFletcherGoldfarbShanno_init_method
      [of "[''tol'' \<mapsto> PyObject (1 :: nat)]" "\<lambda>self objective kw. Inr kw" Map.empty "()"] a
    by auto
  have "kw = [''tol'' \<mapsto> PyObject 1, ''method'' \<mapsto> PyString ''BFGS'']"
    using kw(2,3) by (auto simp: fun_eq_iff)
  then show ?thesis
    using kw(1) a b
      BroydenFletcherGoldfarbShanno_init_method
        [of "[''method'' \<mapsto> PyString ''BFGS'', ''tol'' \<mapsto> PyObject (1 :: nat)]"
          "\<lambda>self objective kw. Inr kw" Map.empty "()"]
    by simp
qed

text \<open>
  C5 as stated fails when the options name \<^verbatim>\<open>method\<close>: nothing is forwarded. The base
  initialiser here returns the keywords it receives, and the result is the
  \<^verbatim>\<open>TypeError\<close>.
\<close>

theorem BroydenFletcherGoldfarbShanno_init_method_twice:
  "BroydenFletcherGoldfarbShanno_init (\<lambda>self objective kw. Inr kw) Map.empty ()
     [''method'' \<mapsto> PyString ''CG'', ''tol'' \<mapsto> PyObject (1 :: nat)] =
   Inl (TypeError ''got multiple values for keyword argument method'')"
  by (simp add: BroydenFletcherGoldfarbShanno_init_def)

end
